theory Spec2Isabelle
  imports Main
begin

section \<open>Common data model\<close>

text \<open>
  A handler returns Go's \<open>error\<close>: \<open>None\<close> is \<open>nil\<close>. \<open>Errorf\<close> keeps the format
  string of the source's \<open>fmt.Errorf\<close> call and its arguments as text; errors coming
  out of the SDK client are opaque text (\<open>SdkError\<close> when a handler returns one as it
  is). \<open>Errorw\<close> is \<open>fmt.Errorf\<close> with an error value as its last argument. \<open>ImportAsExistsError\<close> is the value of
  \<open>tf.ImportAsExistsError(resourceName, id)\<close>. \<open>OperationTimeout\<close> is the poller
  running out of time. \<open>Panic\<close> is a nil dereference: not an error value in Go, but
  an abort of the handler after its deferred calls.
\<close>

datatype error =
    Errorf string "string list"
  | Errorw string "string list" error
  | SdkError string
  | ImportAsExistsError string string
  | OperationTimeout
  | Panic string

text \<open>
  The HTTP response carried by an SDK result (\<open>read.Response\<close>, \<open>future.Response()\<close>):
  its status code, or \<open>None\<close> when no response was received.
\<close>

type_synonym Response = "nat option"

text \<open>
  Modelled from the spec: \<open>utils.ResponseWasNotFound\<close> and \<open>response.WasNotFound\<close> are
  not in the source files at hand. The spec's NotFound is the remote answering with
  status 404 ("simulated 404", the poller's 200/404 sequence).
\<close>

definition ResponseWasNotFound :: "Response \<Rightarrow> bool" where
  "ResponseWasNotFound resp = (resp = Some 404)"

definition WasNotFound :: "Response \<Rightarrow> bool" where
  "WasNotFound resp = (resp = Some 404)"

text \<open>
  Modelled from the spec: \<open>utils.SliceContainsValue\<close> is not in the source files at hand.
  The spec calls the test it makes "absent from the current association list" and
  "existing membership": membership of the value in the slice.
\<close>

definition SliceContainsValue :: "string list \<Rightarrow> string \<Rightarrow> bool" where
  "SliceContainsValue input v = (v \<in> set input)"

text \<open>
  The result of \<open>azure.ParseAzureResourceID\<close>, with the two fields the handlers read.
  \<open>Path\<close> is a Go map: a missing key reads as the empty string.
\<close>

record ResourceID =
  ResourceGroup :: string
  Path :: "string \<rightharpoonup> string"

definition PathAt :: "ResourceID \<Rightarrow> string \<Rightarrow> string" where
  "PathAt rid k = (case Path rid k of None \<Rightarrow> [] | Some v \<Rightarrow> v)"

text \<open>
  \<open>azure.ParseAzureResourceID\<close> is not in the source files at hand: every handler
  takes it as a parameter, the first field of its environment.
\<close>

record id_env =
  ParseAzureResourceID :: "string \<Rightarrow> error + ResourceID"

text \<open>
  \<open>pluginsdk.ResourceData\<close>, the schema values container: the identifier (\<open>d.Id()\<close>,
  \<open>d.SetId\<close>), the string attributes, the map attributes (a Go map, here the list of
  its entries in some order), and \<open>d.IsNewResource()\<close>. \<open>d.GetOk\<close> also tells whether
  the value is set to something other than the zero value.
\<close>

record ResourceData =
  d_Id :: string
  d_Strings :: "string \<rightharpoonup> string"
  d_Maps :: "string \<rightharpoonup> (string \<times> string) list"
  d_IsNewResource :: bool

definition d_Get :: "ResourceData \<Rightarrow> string \<Rightarrow> string" where
  "d_Get d k = (case d_Strings d k of None \<Rightarrow> [] | Some v \<Rightarrow> v)"

definition d_GetOk :: "ResourceData \<Rightarrow> string \<Rightarrow> string \<times> bool" where
  "d_GetOk d k = (case d_Strings d k of None \<Rightarrow> ([], False) | Some v \<Rightarrow> (v, v \<noteq> []))"

definition d_Set :: "string \<Rightarrow> string option \<Rightarrow> ResourceData \<Rightarrow> ResourceData" where
  "d_Set k v d = d\<lparr>d_Strings := (d_Strings d)(k := v)\<rparr>"

definition d_GetOkMap :: "ResourceData \<Rightarrow> string \<Rightarrow> (string \<times> string) list \<times> bool" where
  "d_GetOkMap d k = (case d_Maps d k of None \<Rightarrow> ([], False) | Some m \<Rightarrow> (m, m \<noteq> []))"

definition d_SetMap ::
  "string \<Rightarrow> (string \<times> string) list \<Rightarrow> ResourceData \<Rightarrow> ResourceData" where
  "d_SetMap k m d = d\<lparr>d_Maps := (d_Maps d)(k \<mapsto> m)\<rparr>"

definition d_SetId :: "string \<Rightarrow> ResourceData \<Rightarrow> ResourceData" where
  "d_SetId v d = d\<lparr>d_Id := v\<rparr>"

text \<open>
  What a handler does that is visible from outside: taking and releasing a named lock
  (\<open>locks.ByName\<close>, \<open>locks.UnlockByName\<close>) and calling the remote API (the calls of
  each SDK client are a type \<open>'k\<close> of their own).
\<close>

datatype 'k event =
    LockByName string string
  | UnlockByName string string
  | Remote 'k

text \<open>
  What a handler works on: the schema values \<open>d\<close>, the state of the remote API (of any
  type \<open>'r\<close>; only the SDK client reads and changes it), and the trace of the events
  so far, oldest first.
\<close>

record ('k, 'r) world =
  rd :: ResourceData
  remote :: 'r
  trace :: "'k event list"

type_synonym ('k, 'r) handler = "('k, 'r) world \<Rightarrow> error option \<times> ('k, 'r) world"

definition emit :: "'k event \<Rightarrow> ('k, 'r) world \<Rightarrow> ('k, 'r) world" where
  "emit ev w = w\<lparr>trace := trace w @ [ev]\<rparr>"

definition setId :: "string \<Rightarrow> ('k, 'r) world \<Rightarrow> ('k, 'r) world" where
  "setId v w = w\<lparr>rd := d_SetId v (rd w)\<rparr>"

definition setAttr :: "string \<Rightarrow> string option \<Rightarrow> ('k, 'r) world \<Rightarrow> ('k, 'r) world" where
  "setAttr k v w = w\<lparr>rd := d_Set k v (rd w)\<rparr>"

definition setMapAttr ::
  "string \<Rightarrow> (string \<times> string) list \<Rightarrow> ('k, 'r) world \<Rightarrow> ('k, 'r) world" where
  "setMapAttr k m w = w\<lparr>rd := d_SetMap k m (rd w)\<rparr>"

text \<open>
  A remote call: the client function runs on the remote state, and the call is logged.
\<close>

definition call :: "'k \<Rightarrow> ('r \<Rightarrow> 'a \<times> 'r) \<Rightarrow> ('k, 'r) world \<Rightarrow> 'a \<times> ('k, 'r) world" where
  "call k f w = (case f (remote w) of (res, r') \<Rightarrow> (res, emit (Remote k) (w\<lparr>remote := r'\<rparr>)))"

text \<open>
  \<open>locks.ByName(name, resource)\<close> followed by \<open>defer locks.UnlockByName(name, resource)\<close>:
  the rest of the handler runs between the two, and the unlock runs on every way out.
\<close>

definition locked :: "string \<Rightarrow> string \<Rightarrow> ('k, 'r) handler \<Rightarrow> ('k, 'r) handler" where
  "locked name resource body w =
     (case body (emit (LockByName name resource) w) of
        (err, w') \<Rightarrow> (err, emit (UnlockByName name resource) w'))"

section \<open>Identifier codec\<close>

text \<open>
  Go's \<open>strings.Split(s, sep)\<close> for the one-byte separator the handlers use
  (\<open>"|"\<close>): the substrings between the separators, in order. A string without the
  separator gives the one-element list holding it; the empty string gives \<open>[""]\<close>.
  Go strings are byte sequences, as \<open>string\<close> is here.
\<close>

fun Split :: "string \<Rightarrow> char \<Rightarrow> string list" where
  "Split [] sep = [[]]"
| "Split (c # cs) sep =
     (if c = sep then [] # Split cs sep
      else (case Split cs sep of [] \<Rightarrow> [[c]] | p # ps \<Rightarrow> (c # p) # ps))"

text \<open>
  The composite identifier built in Create:
  \<open>resourceId := fmt.Sprintf("%s|%s", networkInterfaceId, applicationSecurityGroupId)\<close>.
\<close>

definition resourceId :: "string \<Rightarrow> string \<Rightarrow> string" where
  "resourceId networkInterfaceId applicationSecurityGroupId =
     networkInterfaceId @ ''|'' @ applicationSecurityGroupId"

section \<open>Network interface / application security group association\<close>

text \<open>
  The SDK's \<open>network.Interface\<close>, with the fields the handlers touch. The IP
  configurations are of any type \<open>'c\<close>: the handlers only test the pointer for nil and
  hand it to \<open>mapFieldsToNetworkInterface\<close>.
\<close>

record 'c InterfacePropertiesFormat =
  IPConfigurations :: "'c option"

record 'c Interface =
  nic_Response :: Response
  nic_ID :: "string option"
  nic_InterfacePropertiesFormat :: "'c InterfacePropertiesFormat option"

record networkInterfaceUpdateInformation =
  applicationSecurityGroupIDs :: "string list"

datatype 'c nic_call =
    InterfacesGet string string
  | InterfacesCreateOrUpdate string string "'c Interface"
  | WaitForCompletionRef

text \<open>
  What the handlers use and the source files at hand do not define, taken as
  parameters: the resource id parser, the two helpers that read the association list out
  of an interface and write it back, the lock name of network interfaces, and the SDK
  client (\<open>client.Get\<close>, \<open>client.CreateOrUpdate\<close>, \<open>future.WaitForCompletionRef\<close>). A
  client function returns the SDK's error text, or \<open>None\<close> for a nil error; \<open>client.Get\<close>
  returns the interface beside it, as in Go.
\<close>

record ('c, 'r) nic_env = id_env +
  parseFieldsFromNetworkInterface ::
    "'c InterfacePropertiesFormat \<Rightarrow> networkInterfaceUpdateInformation"
  mapFieldsToNetworkInterface ::
    "'c option \<Rightarrow> networkInterfaceUpdateInformation \<Rightarrow> 'c option"
  networkInterfaceResourceName :: string
  client_Get :: "string \<Rightarrow> string \<Rightarrow> 'r \<Rightarrow> ('c Interface \<times> string option) \<times> 'r"
  client_CreateOrUpdate :: "string \<Rightarrow> string \<Rightarrow> 'c Interface \<Rightarrow> 'r \<Rightarrow> string option \<times> 'r"
  future_WaitForCompletionRef :: "'r \<Rightarrow> string option \<times> 'r"

type_synonym ('c, 'r) nic_handler = "('c nic_call, 'r) handler"

text \<open>The loop of Read: \<open>exists\<close> becomes true at every entry equal to the group id.\<close>

fun existsLoop :: "string list \<Rightarrow> string \<Rightarrow> bool \<Rightarrow> bool" where
  "existsLoop [] applicationSecurityGroupId exists = exists"
| "existsLoop (groupId # rest) applicationSecurityGroupId exists =
     existsLoop rest applicationSecurityGroupId
       (if groupId = applicationSecurityGroupId then True else exists)"

text \<open>The loop of Delete: every entry other than the group id is appended to a new slice.\<close>

fun removeLoop :: "string list \<Rightarrow> string \<Rightarrow> string list \<Rightarrow> string list" where
  "removeLoop [] applicationSecurityGroupId applicationSecurityGroupIds =
     applicationSecurityGroupIds"
| "removeLoop (v # rest) applicationSecurityGroupId applicationSecurityGroupIds =
     removeLoop rest applicationSecurityGroupId
       (if v \<noteq> applicationSecurityGroupId then applicationSecurityGroupIds @ [v]
        else applicationSecurityGroupIds)"

definition resourceNetworkInterfaceApplicationSecurityGroupAssociationRead ::
  "('c, 'r) nic_env \<Rightarrow> ('c, 'r) nic_handler" where
  "resourceNetworkInterfaceApplicationSecurityGroupAssociationRead env w =
    (let splitId = Split (d_Id (rd w)) CHR ''|'' in
     if length splitId \<noteq> 2 then
       (Some (Errorf ''Expected ID to be in the format {networkInterfaceId}|{applicationSecurityGroupId} but got %q''
                [d_Id (rd w)]), w)
     else
       case ParseAzureResourceID env (splitId ! 0) of
         Inl err \<Rightarrow> (Some err, w)
       | Inr nicID \<Rightarrow>
          (let networkInterfaceName = PathAt nicID ''networkInterfaces'';
               resourceGroup = ResourceGroup nicID;
               applicationSecurityGroupId = splitId ! 1
           in case call (InterfacesGet resourceGroup networkInterfaceName)
                     (client_Get env resourceGroup networkInterfaceName) w of
                ((read, Some err), w1) \<Rightarrow>
                  if ResponseWasNotFound (nic_Response read) then (None, setId [] w1)
                  else (Some (Errorf ''Error retrieving Network Interface %q (Resource Group %q): %+v''
                                [networkInterfaceName, resourceGroup, err]), w1)
              | ((read, None), w1) \<Rightarrow>
                 (case nic_InterfacePropertiesFormat read of
                    None \<Rightarrow>
                      (Some (Errorf ''Error: `properties` was nil for Network Interface %q (Resource Group %q)''
                               [networkInterfaceName, resourceGroup]), w1)
                  | Some nicProps \<Rightarrow>
                     (let info = parseFieldsFromNetworkInterface env nicProps;
                          exists = existsLoop (applicationSecurityGroupIDs info)
                                     applicationSecurityGroupId False
                      in if \<not> exists then (None, setId [] w1)
                         else (None,
                               setAttr ''network_interface_id'' (nic_ID read)
                                 (setAttr ''application_security_group_id''
                                    (Some applicationSecurityGroupId) w1))))))"

text \<open>Create from the fetch of the interface on, the part that runs holding the lock.\<close>

definition createHoldingLock ::
  "('c, 'r) nic_env \<Rightarrow> string \<Rightarrow> string \<Rightarrow> string \<Rightarrow> string \<Rightarrow> ('c, 'r) nic_handler" where
  "createHoldingLock env networkInterfaceId applicationSecurityGroupId resourceGroup
       networkInterfaceName w =
    (case call (InterfacesGet resourceGroup networkInterfaceName)
            (client_Get env resourceGroup networkInterfaceName) w of
       ((read, Some err), w1) \<Rightarrow>
         if ResponseWasNotFound (nic_Response read) then (None, setId [] w1)
         else (Some (Errorf ''Error retrieving Network Interface %q (Resource Group %q): %+v''
                       [networkInterfaceName, resourceGroup, err]), w1)
     | ((read, None), w1) \<Rightarrow>
        (case nic_InterfacePropertiesFormat read of
           None \<Rightarrow>
             (Some (Errorf ''Error: `properties` was nil for Network Interface %q (Resource Group %q)''
                      [networkInterfaceName, resourceGroup]), w1)
         | Some props \<Rightarrow>
            if IPConfigurations props = None then
              (Some (Errorf ''Error: `properties.ipConfigurations` was nil for Network Interface %q (Resource Group %q)''
                       [networkInterfaceName, resourceGroup]), w1)
            else
              (let info = parseFieldsFromNetworkInterface env props;
                   resourceId = resourceId networkInterfaceId applicationSecurityGroupId
               in if SliceContainsValue (applicationSecurityGroupIDs info) applicationSecurityGroupId
                  then (Some (ImportAsExistsError
                                ''azurerm_network_interface_application_security_group_association''
                                resourceId), w1)
                  else
                    (let info' = info\<lparr>applicationSecurityGroupIDs :=
                                   applicationSecurityGroupIDs info @ [applicationSecurityGroupId]\<rparr>;
                         read' = read\<lparr>nic_InterfacePropertiesFormat :=
                                   Some (props\<lparr>IPConfigurations :=
                                     mapFieldsToNetworkInterface env (IPConfigurations props) info'\<rparr>)\<rparr>
                     in case call (InterfacesCreateOrUpdate resourceGroup networkInterfaceName read')
                               (client_CreateOrUpdate env resourceGroup networkInterfaceName read') w1 of
                          (Some err, w2) \<Rightarrow>
                            (Some (Errorf ''Error updating Application Security Group Association for Network Interface %q (Resource Group %q): %+v''
                                     [networkInterfaceName, resourceGroup, err]), w2)
                        | (None, w2) \<Rightarrow>
                           (case call WaitForCompletionRef (future_WaitForCompletionRef env) w2 of
                              (Some err, w3) \<Rightarrow>
                                (Some (Errorf ''Error waiting for completion of Application Security Group Association for NIC %q (Resource Group %q): %+v''
                                         [networkInterfaceName, resourceGroup, err]), w3)
                            | (None, w3) \<Rightarrow>
                                resourceNetworkInterfaceApplicationSecurityGroupAssociationRead env
                                  (setId resourceId w3))))))"

definition resourceNetworkInterfaceApplicationSecurityGroupAssociationCreate ::
  "('c, 'r) nic_env \<Rightarrow> ('c, 'r) nic_handler" where
  "resourceNetworkInterfaceApplicationSecurityGroupAssociationCreate env w =
    (let networkInterfaceId = d_Get (rd w) ''network_interface_id'';
         applicationSecurityGroupId = d_Get (rd w) ''application_security_group_id''
     in case ParseAzureResourceID env networkInterfaceId of
          Inl err \<Rightarrow> (Some err, w)
        | Inr rid \<Rightarrow>
           (let networkInterfaceName = PathAt rid ''networkInterfaces'';
                resourceGroup = ResourceGroup rid
            in locked networkInterfaceName (networkInterfaceResourceName env)
                 (createHoldingLock env networkInterfaceId applicationSecurityGroupId
                    resourceGroup networkInterfaceName) w))"

text \<open>Delete from the fetch of the interface on, the part that runs holding the lock.\<close>

definition deleteHoldingLock ::
  "('c, 'r) nic_env \<Rightarrow> string \<Rightarrow> string \<Rightarrow> string \<Rightarrow> ('c, 'r) nic_handler" where
  "deleteHoldingLock env applicationSecurityGroupId resourceGroup networkInterfaceName w =
    (case call (InterfacesGet resourceGroup networkInterfaceName)
            (client_Get env resourceGroup networkInterfaceName) w of
       ((read, Some err), w1) \<Rightarrow>
         if ResponseWasNotFound (nic_Response read)
         then (Some (Errorf ''Network Interface %q (Resource Group %q) was not found!''
                       [networkInterfaceName, resourceGroup]), w1)
         else (Some (Errorf ''Error retrieving Network Interface %q (Resource Group %q): %+v''
                       [networkInterfaceName, resourceGroup, err]), w1)
     | ((read, None), w1) \<Rightarrow>
        (case nic_InterfacePropertiesFormat read of
           None \<Rightarrow>
             (Some (Errorf ''Error: `properties` was nil for Network Interface %q (Resource Group %q)''
                      [networkInterfaceName, resourceGroup]), w1)
         | Some props \<Rightarrow>
            if IPConfigurations props = None then
              (Some (Errorf ''Error: `properties.ipConfigurations` was nil for Network Interface %q (Resource Group %q)''
                       [networkInterfaceName, resourceGroup]), w1)
            else
              (let info = parseFieldsFromNetworkInterface env props;
                   applicationSecurityGroupIds =
                     removeLoop (applicationSecurityGroupIDs info) applicationSecurityGroupId [];
                   info' = info\<lparr>applicationSecurityGroupIDs := applicationSecurityGroupIds\<rparr>;
                   read' = read\<lparr>nic_InterfacePropertiesFormat :=
                             Some (props\<lparr>IPConfigurations :=
                               mapFieldsToNetworkInterface env (IPConfigurations props) info'\<rparr>)\<rparr>
               in case call (InterfacesCreateOrUpdate resourceGroup networkInterfaceName read')
                         (client_CreateOrUpdate env resourceGroup networkInterfaceName read') w1 of
                    (Some err, w2) \<Rightarrow>
                      (Some (Errorf ''Error removing Application Security Group for Network Interface %q (Resource Group %q): %+v''
                               [networkInterfaceName, resourceGroup, err]), w2)
                  | (None, w2) \<Rightarrow>
                     (case call WaitForCompletionRef (future_WaitForCompletionRef env) w2 of
                        (Some err, w3) \<Rightarrow>
                          (Some (Errorf ''Error waiting for removal of Application Security Group for NIC %q (Resource Group %q): %+v''
                                   [networkInterfaceName, resourceGroup, err]), w3)
                      | (None, w3) \<Rightarrow> (None, w3)))))"

definition resourceNetworkInterfaceApplicationSecurityGroupAssociationDelete ::
  "('c, 'r) nic_env \<Rightarrow> ('c, 'r) nic_handler" where
  "resourceNetworkInterfaceApplicationSecurityGroupAssociationDelete env w =
    (let splitId = Split (d_Id (rd w)) CHR ''|'' in
     if length splitId \<noteq> 2 then
       (Some (Errorf ''Expected ID to be in the format {networkInterfaceId}|{applicationSecurityGroupId} but got %q''
                [d_Id (rd w)]), w)
     else
       case ParseAzureResourceID env (splitId ! 0) of
         Inl err \<Rightarrow> (Some err, w)
       | Inr nicID \<Rightarrow>
          (let networkInterfaceName = PathAt nicID ''networkInterfaces'';
               resourceGroup = ResourceGroup nicID;
               applicationSecurityGroupId = splitId ! 1
           in locked networkInterfaceName (networkInterfaceResourceName env)
                (deleteHoldingLock env applicationSecurityGroupId resourceGroup
                   networkInterfaceName) w))"

section \<open>Express route circuit authorization\<close>

text \<open>
  The SDK's \<open>network.ExpressRouteCircuitAuthorization\<close>, with the fields the handlers
  touch.
\<close>

record AuthorizationPropertiesFormat =
  AuthorizationKey :: "string option"
  AuthorizationUseStatus :: string

record ExpressRouteCircuitAuthorization =
  auth_Response :: Response
  auth_ID :: "string option"
  auth_AuthorizationPropertiesFormat :: "AuthorizationPropertiesFormat option"

datatype auth_call =
    AuthsGet string string string
  | AuthsCreateOrUpdate string string string ExpressRouteCircuitAuthorization
  | AuthsDelete string string string
  | AuthsWaitForCompletionRef

text \<open>
  The parameters of these handlers: the lock name of express route circuits and the SDK
  client. \<open>client.Delete\<close> and \<open>future.WaitForCompletionRef\<close> return the error beside the
  response that \<open>future.Response()\<close> gives afterwards.
\<close>

record 'r auth_env = id_env +
  expressRouteCircuitResourceName :: string
  auths_Get ::
    "string \<Rightarrow> string \<Rightarrow> string \<Rightarrow> 'r
     \<Rightarrow> (ExpressRouteCircuitAuthorization \<times> string option) \<times> 'r"
  auths_CreateOrUpdate ::
    "string \<Rightarrow> string \<Rightarrow> string \<Rightarrow> ExpressRouteCircuitAuthorization \<Rightarrow> 'r
     \<Rightarrow> string option \<times> 'r"
  auths_Delete ::
    "string \<Rightarrow> string \<Rightarrow> string \<Rightarrow> 'r \<Rightarrow> (Response \<times> string option) \<times> 'r"
  auths_WaitForCompletionRef :: "'r \<Rightarrow> (Response \<times> string option) \<times> 'r"

type_synonym 'r auth_handler = "(auth_call, 'r) handler"

definition resourceExpressRouteCircuitAuthorizationRead :: "'r auth_env \<Rightarrow> 'r auth_handler" where
  "resourceExpressRouteCircuitAuthorizationRead env w =
    (case ParseAzureResourceID env (d_Id (rd w)) of
       Inl err \<Rightarrow> (Some err, w)
     | Inr rid \<Rightarrow>
        (let resourceGroup = ResourceGroup rid;
             circuitName = PathAt rid ''expressRouteCircuits'';
             name = PathAt rid ''authorizations''
         in case call (AuthsGet resourceGroup circuitName name)
                   (auths_Get env resourceGroup circuitName name) w of
              ((resp, Some err), w1) \<Rightarrow>
                if ResponseWasNotFound (auth_Response resp) then (None, setId [] w1)
                else (Some (Errorf ''Error retrieving Express Route Circuit Authorization %q (Circuit %q / Resource Group %q): %+v''
                              [name, circuitName, resourceGroup, err]), w1)
            | ((resp, None), w1) \<Rightarrow>
               (let w2 = setAttr ''express_route_circuit_name'' (Some circuitName)
                           (setAttr ''resource_group_name'' (Some resourceGroup)
                              (setAttr ''name'' (Some name) w1))
                in case auth_AuthorizationPropertiesFormat resp of
                     None \<Rightarrow> (None, w2)
                   | Some props \<Rightarrow>
                       (None,
                        setAttr ''authorization_use_status'' (Some (AuthorizationUseStatus props))
                          (setAttr ''authorization_key'' (AuthorizationKey props) w2)))))"

text \<open>
  Create from the request on (\<open>properties := ...\<close> to the end), what follows the check
  for an existing authorization.
\<close>

definition authorizationCreateOrUpdate ::
  "'r auth_env \<Rightarrow> string \<Rightarrow> string \<Rightarrow> string \<Rightarrow> 'r auth_handler" where
  "authorizationCreateOrUpdate env name resourceGroup circuitName w =
    (let properties = \<lparr>auth_Response = None, auth_ID = None,
                         auth_AuthorizationPropertiesFormat =
                           Some \<lparr>AuthorizationKey = None, AuthorizationUseStatus = []\<rparr>\<rparr>
     in case call (AuthsCreateOrUpdate resourceGroup circuitName name properties)
               (auths_CreateOrUpdate env resourceGroup circuitName name properties) w of
          (Some err, w1) \<Rightarrow>
            (Some (Errorf ''Error Creating/Updating Express Route Circuit Authorization %q (Circuit %q / Resource Group %q): %+v''
                     [name, circuitName, resourceGroup, err]), w1)
        | (None, w1) \<Rightarrow>
           (case call AuthsWaitForCompletionRef (auths_WaitForCompletionRef env) w1 of
              ((resp, Some err), w2) \<Rightarrow>
                (Some (Errorf ''Error waiting for Express Route Circuit Authorization %q (Circuit %q / Resource Group %q) to finish creating/updating: %+v''
                         [name, circuitName, resourceGroup, err]), w2)
            | ((resp, None), w2) \<Rightarrow>
               (case call (AuthsGet resourceGroup circuitName name)
                       (auths_Get env resourceGroup circuitName name) w2 of
                  ((read, Some err), w3) \<Rightarrow>
                    (Some (Errorf ''Error retrieving Express Route Circuit Authorization %q (Circuit %q / Resource Group %q): %+v''
                             [name, circuitName, resourceGroup, err]), w3)
                | ((read, None), w3) \<Rightarrow>
                   (case auth_ID read of
                      None \<Rightarrow> (Some (Panic ''nil pointer dereference: *read.ID''), w3)
                    | Some ident \<Rightarrow>
                        resourceExpressRouteCircuitAuthorizationRead env (setId ident w3)))))"

text \<open>Create after the lock is taken: the check under \<open>d.IsNewResource()\<close>, then the request.\<close>

definition authorizationCreateHoldingLock ::
  "'r auth_env \<Rightarrow> string \<Rightarrow> string \<Rightarrow> string \<Rightarrow> 'r auth_handler" where
  "authorizationCreateHoldingLock env name resourceGroup circuitName w =
    (if d_IsNewResource (rd w) then
       (case call (AuthsGet resourceGroup circuitName name)
               (auths_Get env resourceGroup circuitName name) w of
          ((existing, err), w1) \<Rightarrow>
            if err \<noteq> None \<and> \<not> ResponseWasNotFound (auth_Response existing) then
              (Some (Errorf ''Error checking for presence of existing Express Route Circuit Authorization %q (Circuit %q / Resource Group %q): %s''
                       [name, circuitName, resourceGroup, the err]), w1)
            else
              (case auth_ID existing of
                 None \<Rightarrow> authorizationCreateOrUpdate env name resourceGroup circuitName w1
               | Some ident \<Rightarrow>
                   if ident \<noteq> [] then
                     (Some (ImportAsExistsError ''azurerm_express_route_circuit_authorization''
                              ident), w1)
                   else authorizationCreateOrUpdate env name resourceGroup circuitName w1))
     else authorizationCreateOrUpdate env name resourceGroup circuitName w)"

definition resourceExpressRouteCircuitAuthorizationCreate :: "'r auth_env \<Rightarrow> 'r auth_handler" where
  "resourceExpressRouteCircuitAuthorizationCreate env w =
    (let name = d_Get (rd w) ''name'';
         resourceGroup = d_Get (rd w) ''resource_group_name'';
         circuitName = d_Get (rd w) ''express_route_circuit_name''
     in locked circuitName (expressRouteCircuitResourceName env)
          (authorizationCreateHoldingLock env name resourceGroup circuitName) w)"

text \<open>Delete after the lock is taken.\<close>

definition authorizationDeleteHoldingLock ::
  "'r auth_env \<Rightarrow> string \<Rightarrow> string \<Rightarrow> string \<Rightarrow> 'r auth_handler" where
  "authorizationDeleteHoldingLock env name resourceGroup circuitName w =
    (case call (AuthsDelete resourceGroup circuitName name)
            (auths_Delete env resourceGroup circuitName name) w of
       ((futureResponse, Some err), w1) \<Rightarrow>
         if WasNotFound futureResponse then (None, w1)
         else (Some (Errorf ''Error deleting Express Route Circuit Authorization %q (Circuit %q / Resource Group %q): %+v''
                       [name, circuitName, resourceGroup, err]), w1)
     | ((futureResponse, None), w1) \<Rightarrow>
        (case call AuthsWaitForCompletionRef (auths_WaitForCompletionRef env) w1 of
           ((futureResponse', Some err), w2) \<Rightarrow>
             if WasNotFound futureResponse' then (None, w2)
             else (Some (Errorf ''Error waiting for Express Route Circuit Authorization %q (Circuit %q / Resource Group %q) to be deleted: %+v''
                           [name, circuitName, resourceGroup, err]), w2)
         | ((futureResponse', None), w2) \<Rightarrow> (None, w2)))"

definition resourceExpressRouteCircuitAuthorizationDelete :: "'r auth_env \<Rightarrow> 'r auth_handler" where
  "resourceExpressRouteCircuitAuthorizationDelete env w =
    (case ParseAzureResourceID env (d_Id (rd w)) of
       Inl err \<Rightarrow> (Some err, w)
     | Inr rid \<Rightarrow>
        (let resourceGroup = ResourceGroup rid;
             circuitName = PathAt rid ''expressRouteCircuits'';
             name = PathAt rid ''authorizations''
         in locked circuitName (expressRouteCircuitResourceName env)
              (authorizationDeleteHoldingLock env name resourceGroup circuitName) w))"

section \<open>Dedicated host: delete and the wait for the host to disappear\<close>

text \<open>
  The result of \<open>parse.DedicatedHostID\<close> and the SDK's \<open>compute.DedicatedHost\<close>, with
  the fields that Delete and its refresh function read.
\<close>

record DedicatedHostId =
  host_ResourceGroup :: string
  HostGroupName :: string
  HostName :: string

record DedicatedHost =
  host_Response :: Response

datatype host_call =
    HostsDelete string string string
  | HostsWaitForCompletionRef
  | HostsGet string string string

text \<open>
  \<open>pluginsdk.StateChangeConf\<close>, with the fields Delete sets. The two durations are in
  seconds. \<open>Timeout\<close> is the deadline of the whole wait, counted from its start.
  Neither the spec nor the source says what \<open>MinTimeout\<close> does: it is kept as Delete
  sets it.
\<close>

record StateChangeConf =
  Pending :: "string list"
  Target :: "string list"
  MinTimeout :: nat
  ContinuousTargetOccurence :: nat
  Timeout :: nat

text \<open>
  What a refresh function returns: the result (an \<open>interface{}\<close>), the state and the
  error.
\<close>

datatype refresh_value = NilValue | StringValue string | HostValue DedicatedHost

type_synonym refresh_result = "refresh_value \<times> string \<times> error option"

text \<open>
  The body of the function \<open>dedicatedHostDeletedRefreshFunc\<close> returns, applied to what
  its \<open>client.Get\<close> returned.
\<close>

definition dedicatedHostDeletedRefreshFunc ::
  "DedicatedHost \<times> string option \<Rightarrow> refresh_result" where
  "dedicatedHostDeletedRefreshFunc got =
    (case got of
       (res, Some err) \<Rightarrow>
         if ResponseWasNotFound (host_Response res)
         then (StringValue ''NotFound'', ''NotFound'', None)
         else (NilValue, [],
               Some (Errorf ''Error polling to check if the Dedicated Host has been deleted: %+v''
                       [err]))
     | (res, None) \<Rightarrow> (HostValue res, ''Exists'', None))"

text \<open>
  Modelled from the spec: \<open>StateChangeConf.WaitForStateContext\<close> is not in the source
  files at hand. The spec (4.5 b, 5, 7, 8): the poller re-fetches repeatedly, classifies
  each observation as a Pending or a Target state, requires the configured number of
  consecutive Target observations before declaring done, a Pending observation resets
  the consecutive counter to zero, an error of the fetch fails the whole operation, and
  the wait is bounded by the overall timeout: when the deadline fires the wait is
  abandoned with a timeout error. The poller is given the results of the successive
  refreshes, each with the time in seconds, counted from the start of the wait, at
  which it arrives. A result that arrives when \<open>Timeout\<close> seconds or more have passed
  is not read: the deadline has fired. So has it when no further result arrives. A
  state that is neither Pending nor Target, which the spec does not provide for, is
  an error. The second component of the result counts the refreshes whose results
  were read; \<open>targetOccurence\<close> is the consecutive counter.
\<close>

fun WaitForStateContext ::
  "StateChangeConf \<Rightarrow> nat \<Rightarrow> (nat \<times> refresh_result) list \<Rightarrow> error option \<times> nat" where
  "WaitForStateContext conf targetOccurence [] = (Some OperationTimeout, 0)"
| "WaitForStateContext conf targetOccurence ((elapsed, res, currentState, err) # later) =
     (if Timeout conf \<le> elapsed then (Some OperationTimeout, 0)
      else
        (case err of
           Some e \<Rightarrow> (Some e, 1)
         | None \<Rightarrow>
            if currentState \<in> set (Target conf) then
              (if ContinuousTargetOccurence conf \<le> Suc targetOccurence then (None, 1)
               else (case WaitForStateContext conf (Suc targetOccurence) later of
                       (r, n) \<Rightarrow> (r, Suc n)))
            else if currentState \<in> set (Pending conf) then
              (case WaitForStateContext conf 0 later of (r, n) \<Rightarrow> (r, Suc n))
            else (Some (Errorf ''unexpected state %q'' [currentState]), 1)))"

text \<open>
  The parameters of Delete: the id parser, the SDK client, the delete timeout of the
  resource in seconds (\<open>d.Timeout(pluginsdk.TimeoutDelete)\<close>), and what the remote
  answers to the successive \<open>client.Get\<close> calls of the poller, each answer with the
  time in seconds, counted from the start of the wait, at which it arrives.
\<close>

record 'r host_env =
  DedicatedHostID :: "string \<Rightarrow> error + DedicatedHostId"
  hosts_Delete :: "string \<Rightarrow> string \<Rightarrow> string \<Rightarrow> 'r \<Rightarrow> string option \<times> 'r"
  hosts_WaitForCompletionRef :: "'r \<Rightarrow> (Response \<times> string option) \<times> 'r"
  hosts_GetPolls ::
    "string \<Rightarrow> string \<Rightarrow> string \<Rightarrow> 'r \<Rightarrow> (nat \<times> DedicatedHost \<times> string option) list"
  timeoutDelete :: nat

type_synonym 'r host_handler = "(host_call, 'r) handler"

text \<open>The configuration Delete gives the poller.\<close>

definition dedicatedHostDeleteStateConf :: "nat \<Rightarrow> StateChangeConf" where
  "dedicatedHostDeleteStateConf timeout =
     \<lparr>Pending = [''Exists''], Target = [''NotFound''], MinTimeout = 10,
      ContinuousTargetOccurence = 20, Timeout = timeout\<rparr>"

text \<open>Delete from the comment on the API's eventual consistency on.\<close>

definition waitForDedicatedHostToDisappear :: "'r host_env \<Rightarrow> DedicatedHostId \<Rightarrow> 'r host_handler" where
  "waitForDedicatedHostToDisappear env hid w =
    (let stateConf = dedicatedHostDeleteStateConf (timeoutDelete env);
         answers = hosts_GetPolls env (host_ResourceGroup hid) (HostGroupName hid) (HostName hid)
                     (remote w)
     in case WaitForStateContext stateConf 0
               (map (\<lambda>(elapsed, got). (elapsed, dedicatedHostDeletedRefreshFunc got)) answers) of
          (err, n) \<Rightarrow>
            (let w' = w\<lparr>trace := trace w @
                        replicate n (Remote (HostsGet (host_ResourceGroup hid)
                                               (HostGroupName hid) (HostName hid)))\<rparr>
             in case err of
                  Some e \<Rightarrow>
                    (Some (Errorw ''Error waiting for Dedicated Host %q (Host Group Name %q / Resource Group %q) to become available: %+v''
                             [HostName hid, HostGroupName hid, host_ResourceGroup hid] e), w')
                | None \<Rightarrow> (None, w')))"

definition resourceDedicatedHostDelete :: "'r host_env \<Rightarrow> 'r host_handler" where
  "resourceDedicatedHostDelete env w =
    (case DedicatedHostID env (d_Id (rd w)) of
       Inl err \<Rightarrow> (Some err, w)
     | Inr hid \<Rightarrow>
        (case call (HostsDelete (host_ResourceGroup hid) (HostGroupName hid) (HostName hid))
                (hosts_Delete env (host_ResourceGroup hid) (HostGroupName hid) (HostName hid)) w of
           (Some err, w1) \<Rightarrow>
             (Some (Errorf ''Error deleting Dedicated Host %q (Host Group Name %q / Resource Group %q): %+v''
                      [HostName hid, HostGroupName hid, host_ResourceGroup hid, err]), w1)
         | (None, w1) \<Rightarrow>
            (case call HostsWaitForCompletionRef (hosts_WaitForCompletionRef env) w1 of
               ((futureResponse, Some err), w2) \<Rightarrow>
                 if \<not> WasNotFound futureResponse then
                   (Some (Errorf ''Error waiting for deleting Dedicated Host %q (Host Group Name %q / Resource Group %q): %+v''
                            [HostName hid, HostGroupName hid, host_ResourceGroup hid, err]), w2)
                 else waitForDedicatedHostToDisappear env hid w2
             | ((futureResponse, None), w2) \<Rightarrow> waitForDedicatedHostToDisappear env hid w2)))"

section \<open>Automation job schedule\<close>

text \<open>
  The SDK's \<open>automation.JobSchedule\<close> and the request of \<open>client.Create\<close>, with the fields
  the handlers touch. A UUID is the text of it.
\<close>

record ScheduleAssociationProperty =
  schedule_Name :: "string option"

record RunbookAssociationProperty =
  runbook_Name :: "string option"

record JobScheduleProperties =
  JobScheduleID :: "string option"
  Schedule :: "ScheduleAssociationProperty option"
  Runbook :: "RunbookAssociationProperty option"
  RunOn :: "string option"
  Parameters :: "(string \<times> string option) list option"

record JobSchedule =
  js_Response :: Response
  js_ID :: "string option"
  js_JobScheduleProperties :: "JobScheduleProperties option"

record JobScheduleCreateProperties =
  create_Schedule :: "ScheduleAssociationProperty option"
  create_Runbook :: "RunbookAssociationProperty option"
  create_Parameters :: "(string \<times> string option) list option"
  create_RunOn :: "string option"

datatype js_call =
    JobScheduleGet string string string
  | JobScheduleListByAutomationAccountComplete string string
  | JobScheduleDelete string string string
  | JobScheduleCreate string string string JobScheduleCreateProperties

text \<open>
  The parameters of these handlers: \<open>uuid.NewV4()\<close> (a fresh UUID, or an error),
  \<open>uuid.FromString\<close> (the UUID, or the text of the error), \<open>strings.ToLower\<close>, and the
  SDK client. The listing gives what the loop of Create sees at each round while
  \<open>jsIterator.NotDone()\<close> holds: the value of \<open>err\<close> at the head of the round and
  \<open>jsIterator.Value()\<close>. A listing that fails at once, leaving an iterator that is done,
  is the empty list.
\<close>

record 'r js_env = id_env +
  uuid_NewV4 :: "error + string"
  uuid_FromString :: "string \<Rightarrow> string + string"
  strings_ToLower :: "string \<Rightarrow> string"
  jobs_Get :: "string \<Rightarrow> string \<Rightarrow> string \<Rightarrow> 'r \<Rightarrow> (JobSchedule \<times> string option) \<times> 'r"
  jobs_ListByAutomationAccountComplete ::
    "string \<Rightarrow> string \<Rightarrow> 'r \<Rightarrow> (string option \<times> JobSchedule) list \<times> 'r"
  jobs_Delete :: "string \<Rightarrow> string \<Rightarrow> string \<Rightarrow> 'r \<Rightarrow> (Response \<times> string option) \<times> 'r"
  jobs_Create ::
    "string \<Rightarrow> string \<Rightarrow> string \<Rightarrow> JobScheduleCreateProperties \<Rightarrow> 'r \<Rightarrow> string option \<times> 'r"

type_synonym 'r js_handler = "(js_call, 'r) handler"

definition uuid_Nil :: string where
  "uuid_Nil = ''00000000-0000-0000-0000-000000000000''"

definition uuid_FromStringOrNil :: "'r js_env \<Rightarrow> string \<Rightarrow> string" where
  "uuid_FromStringOrNil env input =
     (case uuid_FromString env input of Inl err \<Rightarrow> uuid_Nil | Inr u \<Rightarrow> u)"

definition resourceAutomationJobScheduleRead :: "'r js_env \<Rightarrow> 'r js_handler" where
  "resourceAutomationJobScheduleRead env w =
    (case ParseAzureResourceID env (d_Id (rd w)) of
       Inl err \<Rightarrow> (Some err, w)
     | Inr rid \<Rightarrow>
        (let jobScheduleID = PathAt rid ''jobSchedules'';
             jobScheduleUUID = uuid_FromStringOrNil env jobScheduleID;
             resourceGroup = ResourceGroup rid;
             accountName = PathAt rid ''automationAccounts''
         in case call (JobScheduleGet resourceGroup accountName jobScheduleUUID)
                   (jobs_Get env resourceGroup accountName jobScheduleUUID) w of
              ((resp, Some err), w1) \<Rightarrow>
                if ResponseWasNotFound (js_Response resp) then (None, setId [] w1)
                else (Some (Errorf ''Error making Read request on AzureRM Automation Job Schedule '%s': %+v''
                              [jobScheduleUUID, err]), w1)
            | ((resp, None), w1) \<Rightarrow>
               (case js_JobScheduleProperties resp of
                  None \<Rightarrow> (Some (Panic ''nil pointer dereference: resp.JobScheduleProperties''), w1)
                | Some props \<Rightarrow>
                   (let w2 = setAttr ''automation_account_name'' (Some accountName)
                               (setAttr ''resource_group_name'' (Some resourceGroup)
                                  (setAttr ''job_schedule_id'' (JobScheduleID props) w1))
                    in case Runbook props of
                         None \<Rightarrow> (Some (Panic ''nil pointer dereference: resp.JobScheduleProperties.Runbook''), w2)
                       | Some runbook \<Rightarrow>
                          (let w3 = setAttr ''runbook_name'' (runbook_Name runbook) w2
                           in case Schedule props of
                                None \<Rightarrow> (Some (Panic ''nil pointer dereference: resp.JobScheduleProperties.Schedule''), w3)
                              | Some schedule \<Rightarrow>
                                 (let w4 = setAttr ''schedule_name'' (schedule_Name schedule) w3;
                                      w5 = (case RunOn props of
                                              None \<Rightarrow> w4
                                            | Some v \<Rightarrow> setAttr ''run_on'' (Some v) w4);
                                      w6 = (case Parameters props of
                                              None \<Rightarrow> w5
                                            | Some v \<Rightarrow>
                                                setMapAttr ''parameters''
                                                  (map (\<lambda>(key, value).
                                                          (strings_ToLower env key,
                                                           case value of None \<Rightarrow> [] | Some x \<Rightarrow> x)) v)
                                                  w5)
                                  in (None, w6)))))))"

text \<open>Create: the check for an existing job schedule, made under \<open>d.IsNewResource()\<close>.\<close>

definition jobScheduleCheckExisting ::
  "'r js_env \<Rightarrow> string \<Rightarrow> string \<Rightarrow> string \<Rightarrow> 'r js_handler" where
  "jobScheduleCheckExisting env resourceGroup accountName jobScheduleUUID w =
    (if d_IsNewResource (rd w) then
       (case call (JobScheduleGet resourceGroup accountName jobScheduleUUID)
               (jobs_Get env resourceGroup accountName jobScheduleUUID) w of
          ((existing, err), w1) \<Rightarrow>
            if err \<noteq> None \<and> \<not> ResponseWasNotFound (js_Response existing) then
              (Some (Errorf ''Error checking for presence of existing Automation Job Schedule %q (Account %q / Resource Group %q): %s''
                       [jobScheduleUUID, accountName, resourceGroup, the err]), w1)
            else
              (case js_ID existing of
                 None \<Rightarrow> (None, w1)
               | Some ident \<Rightarrow>
                   if ident \<noteq> [] then
                     (Some (ImportAsExistsError ''azurerm_automation_job_schedule'' ident), w1)
                   else (None, w1)))
     else (None, w))"

text \<open>
  Create: the loop over the job schedules of the automation account, one round for each
  element of the listing.
\<close>

fun deleteListedJobSchedules ::
  "'r js_env \<Rightarrow> string \<Rightarrow> string \<Rightarrow> string \<Rightarrow> string
   \<Rightarrow> (string option \<times> JobSchedule) list \<Rightarrow> 'r js_handler" where
  "deleteListedJobSchedules env resourceGroup accountName scheduleName runbookName [] w =
     (None, w)"
| "deleteListedJobSchedules env resourceGroup accountName scheduleName runbookName
     ((err, v) # later) w =
     (case err of
        Some e \<Rightarrow>
          (Some (Errorf ''loading Automation Account %q Job Schedule List: %+v''
                   [accountName, e]), w)
      | None \<Rightarrow>
         (case js_JobScheduleProperties v of
            None \<Rightarrow>
              deleteListedJobSchedules env resourceGroup accountName scheduleName runbookName
                later w
          | Some props \<Rightarrow>
             (case Schedule props of
                None \<Rightarrow> (Some (Panic ''nil pointer dereference: props.Schedule''), w)
              | Some schedule \<Rightarrow>
                 if schedule_Name schedule \<noteq> Some scheduleName then
                   deleteListedJobSchedules env resourceGroup accountName scheduleName
                     runbookName later w
                 else
                   (case Runbook props of
                      None \<Rightarrow> (Some (Panic ''nil pointer dereference: props.Runbook''), w)
                    | Some runbook \<Rightarrow>
                       if runbook_Name runbook \<noteq> Some runbookName then
                         deleteListedJobSchedules env resourceGroup accountName scheduleName
                           runbookName later w
                       else
                         (case JobScheduleID props of
                            None \<Rightarrow>
                              (Some (Errorf ''job schedule Id is nil or empty listed by Automation Account %q Job Schedule List: %+v''
                                       [accountName, ''<nil>'']), w)
                          | Some jobScheduleID \<Rightarrow>
                             if jobScheduleID = [] then
                               (Some (Errorf ''job schedule Id is nil or empty listed by Automation Account %q Job Schedule List: %+v''
                                        [accountName, ''<nil>'']), w)
                             else
                               (case uuid_FromString env jobScheduleID of
                                  Inl perr \<Rightarrow>
                                    (Some (Errorf ''parsing job schedule Id listed by Automation Account %q Job Schedule List:%v''
                                             [accountName, perr]), w)
                                | Inr jsId \<Rightarrow>
                                   (case call (JobScheduleDelete resourceGroup accountName jsId)
                                           (jobs_Delete env resourceGroup accountName jsId) w of
                                      ((resp, Some derr), w1) \<Rightarrow>
                                        (Some (Errorf ''deleting job schedule Id listed by Automation Account %q Job Schedule List:%v''
                                                 [accountName, derr]), w1)
                                    | ((resp, None), w1) \<Rightarrow>
                                        deleteListedJobSchedules env resourceGroup accountName
                                          scheduleName runbookName later w1)))))))"

text \<open>
  The test the loop makes on a listed job schedule (properties not nil, schedule name
  and runbook name both not nil and equal to the requested ones), for a job schedule
  whose \<open>Schedule\<close> and \<open>Runbook\<close> are not nil, and the \<open>JobScheduleID\<close> the loop reads
  from it, empty when nil.
\<close>

definition jobScheduleMatches :: "string \<Rightarrow> string \<Rightarrow> JobSchedule \<Rightarrow> bool" where
  "jobScheduleMatches scheduleName runbookName v =
     (case js_JobScheduleProperties v of
        None \<Rightarrow> False
      | Some props \<Rightarrow>
          (case Schedule props of
             None \<Rightarrow> False
           | Some schedule \<Rightarrow> schedule_Name schedule = Some scheduleName)
          \<and> (case Runbook props of
                None \<Rightarrow> False
              | Some runbook \<Rightarrow> runbook_Name runbook = Some runbookName))"

definition listedJobScheduleID :: "JobSchedule \<Rightarrow> string" where
  "listedJobScheduleID v =
     (case js_JobScheduleProperties v of
        None \<Rightarrow> []
      | Some props \<Rightarrow> (case JobScheduleID props of None \<Rightarrow> [] | Some ident \<Rightarrow> ident))"

text \<open>Create from the request on (\<open>parameters := ...\<close> to the end).\<close>

definition jobScheduleCreateAndRead ::
  "'r js_env \<Rightarrow> string \<Rightarrow> string \<Rightarrow> string \<Rightarrow> string \<Rightarrow> string \<Rightarrow> 'r js_handler" where
  "jobScheduleCreateAndRead env resourceGroup accountName jobScheduleUUID scheduleName
       runbookName w =
    (let properties = \<lparr>create_Schedule = Some \<lparr>schedule_Name = Some scheduleName\<rparr>,
                         create_Runbook = Some \<lparr>runbook_Name = Some runbookName\<rparr>,
                         create_Parameters = None, create_RunOn = None\<rparr>;
         properties1 = (case d_GetOkMap (rd w) ''parameters'' of
                          (v, True) \<Rightarrow>
                            properties\<lparr>create_Parameters :=
                              Some (map (\<lambda>(k, value). (k, Some value)) v)\<rparr>
                        | (v, False) \<Rightarrow> properties);
         properties2 = (case d_GetOk (rd w) ''run_on'' of
                          (v, True) \<Rightarrow> properties1\<lparr>create_RunOn := Some v\<rparr>
                        | (v, False) \<Rightarrow> properties1)
     in case call (JobScheduleCreate resourceGroup accountName jobScheduleUUID properties2)
               (jobs_Create env resourceGroup accountName jobScheduleUUID properties2) w of
          (Some err, w1) \<Rightarrow> (Some (SdkError err), w1)
        | (None, w1) \<Rightarrow>
           (case call (JobScheduleGet resourceGroup accountName jobScheduleUUID)
                   (jobs_Get env resourceGroup accountName jobScheduleUUID) w1 of
              ((read, Some err), w2) \<Rightarrow> (Some (SdkError err), w2)
            | ((read, None), w2) \<Rightarrow>
               (case js_ID read of
                  None \<Rightarrow>
                    (Some (Errorf ''Cannot read Automation Job Schedule '%s' (Account %q / Resource Group %s) ID''
                             [jobScheduleUUID, accountName, resourceGroup]), w2)
                | Some ident \<Rightarrow> resourceAutomationJobScheduleRead env (setId ident w2))))"

definition resourceAutomationJobScheduleCreate :: "'r js_env \<Rightarrow> 'r js_handler" where
  "resourceAutomationJobScheduleCreate env w =
    (let resourceGroup = d_Get (rd w) ''resource_group_name'';
         accountName = d_Get (rd w) ''automation_account_name'';
         runbookName = d_Get (rd w) ''runbook_name'';
         scheduleName = d_Get (rd w) ''schedule_name''
     in case uuid_NewV4 env of
          Inl err \<Rightarrow> (Some err, w)
        | Inr fresh \<Rightarrow>
           (let jobScheduleUUID = (case d_GetOk (rd w) ''job_schedule_id'' of
                                     (jobScheduleID, True) \<Rightarrow> uuid_FromStringOrNil env jobScheduleID
                                   | (jobScheduleID, False) \<Rightarrow> fresh)
            in case jobScheduleCheckExisting env resourceGroup accountName jobScheduleUUID w of
                 (Some err, w1) \<Rightarrow> (Some err, w1)
               | (None, w1) \<Rightarrow>
                  (case call (JobScheduleListByAutomationAccountComplete resourceGroup accountName)
                          (jobs_ListByAutomationAccountComplete env resourceGroup accountName) w1 of
                     (listing, w2) \<Rightarrow>
                       (case deleteListedJobSchedules env resourceGroup accountName scheduleName
                               runbookName listing w2 of
                          (Some err, w3) \<Rightarrow> (Some err, w3)
                        | (None, w3) \<Rightarrow>
                            jobScheduleCreateAndRead env resourceGroup accountName
                              jobScheduleUUID scheduleName runbookName w3))))"

section \<open>An example environment\<close>

text \<open>
  A small remote for evaluating the handlers on concrete inputs: the network interfaces
  are a map from resource group and name, an interface's IP configurations are just the
  list of application security group ids they carry, and every call succeeds unless the
  interface is missing (status 404).
\<close>

type_synonym exampleCloud = "string \<times> string \<rightharpoonup> string list Interface"

definition exampleNicId :: string where
  "exampleNicId = ''/subscriptions/s1/resourceGroups/rg1/providers/Microsoft.Network/networkInterfaces/nic1''"

definition exampleParse :: "string \<Rightarrow> error + ResourceID" where
  "exampleParse s =
     (if s = exampleNicId
      then Inr \<lparr>ResourceGroup = ''rg1'', Path = [''networkInterfaces'' \<mapsto> ''nic1'']\<rparr>
      else Inl (Errorf ''Cannot parse Azure ID: %s'' [s]))"

definition exampleGet ::
  "string \<Rightarrow> string \<Rightarrow> exampleCloud \<Rightarrow> (string list Interface \<times> string option) \<times> exampleCloud" where
  "exampleGet resourceGroup name r =
     (case r (resourceGroup, name) of
        None \<Rightarrow> ((\<lparr>nic_Response = Some 404, nic_ID = None,
                     nic_InterfacePropertiesFormat = None\<rparr>, Some ''404 Not Found''), r)
      | Some nic \<Rightarrow> ((nic, None), r))"

definition exampleCreateOrUpdate ::
  "string \<Rightarrow> string \<Rightarrow> string list Interface \<Rightarrow> exampleCloud \<Rightarrow> string option \<times> exampleCloud" where
  "exampleCreateOrUpdate resourceGroup name nic r = (None, r((resourceGroup, name) \<mapsto> nic))"

definition exampleEnv :: "(string list, exampleCloud) nic_env" where
  "exampleEnv =
     \<lparr>ParseAzureResourceID = exampleParse,
      parseFieldsFromNetworkInterface =
        (\<lambda>props. \<lparr>applicationSecurityGroupIDs =
                     (case IPConfigurations props of None \<Rightarrow> [] | Some ids \<Rightarrow> ids)\<rparr>),
      mapFieldsToNetworkInterface = (\<lambda>input info. Some (applicationSecurityGroupIDs info)),
      networkInterfaceResourceName = ''azurerm_network_interface'',
      client_Get = exampleGet,
      client_CreateOrUpdate = exampleCreateOrUpdate,
      future_WaitForCompletionRef = (\<lambda>r. (None, r))\<rparr>"

definition exampleNic :: "string list \<Rightarrow> string list Interface" where
  "exampleNic ids =
     \<lparr>nic_Response = Some 200, nic_ID = Some exampleNicId,
      nic_InterfacePropertiesFormat = Some \<lparr>IPConfigurations = Some ids\<rparr>\<rparr>"

definition exampleRemote :: "string list \<Rightarrow> exampleCloud" where
  "exampleRemote ids = [(''rg1'', ''nic1'') \<mapsto> exampleNic ids]"

definition exampleData :: "string \<Rightarrow> (string \<times> string) list \<Rightarrow> ResourceData" where
  "exampleData ident attrs =
     \<lparr>d_Id = ident, d_Strings = map_of attrs, d_Maps = Map.empty, d_IsNewResource = True\<rparr>"

definition exampleWorld :: "string \<Rightarrow> (string \<times> string) list \<Rightarrow> exampleCloud
    \<Rightarrow> (string list nic_call, exampleCloud) world" where
  "exampleWorld ident attrs r = \<lparr>rd = exampleData ident attrs, remote = r, trace = []\<rparr>"

definition exampleAttrs :: "(string \<times> string) list" where
  "exampleAttrs = [(''network_interface_id'', exampleNicId),
                   (''application_security_group_id'', ''/asg1'')]"

text \<open>The same for express route circuit authorizations.\<close>

type_synonym exampleAuths = "string \<times> string \<times> string \<rightharpoonup> ExpressRouteCircuitAuthorization"

definition exampleAuthId :: string where
  "exampleAuthId = ''/subscriptions/s1/resourceGroups/rg1/providers/Microsoft.Network/expressRouteCircuits/circuit1/authorizations/auth1''"

definition exampleAuthParse :: "string \<Rightarrow> error + ResourceID" where
  "exampleAuthParse s =
     (if s = exampleAuthId
      then Inr \<lparr>ResourceGroup = ''rg1'',
                Path = [''expressRouteCircuits'' \<mapsto> ''circuit1'', ''authorizations'' \<mapsto> ''auth1'']\<rparr>
      else Inl (Errorf ''Cannot parse Azure ID: %s'' [s]))"

definition exampleAuth :: ExpressRouteCircuitAuthorization where
  "exampleAuth =
     \<lparr>auth_Response = Some 200, auth_ID = Some exampleAuthId,
      auth_AuthorizationPropertiesFormat =
        Some \<lparr>AuthorizationKey = Some ''key'', AuthorizationUseStatus = ''Available''\<rparr>\<rparr>"

definition exampleAuthsGet ::
  "string \<Rightarrow> string \<Rightarrow> string \<Rightarrow> exampleAuths
   \<Rightarrow> (ExpressRouteCircuitAuthorization \<times> string option) \<times> exampleAuths" where
  "exampleAuthsGet resourceGroup circuitName name r =
     (case r (resourceGroup, circuitName, name) of
        None \<Rightarrow> ((\<lparr>auth_Response = Some 404, auth_ID = None,
                     auth_AuthorizationPropertiesFormat = None\<rparr>, Some ''404 Not Found''), r)
      | Some a \<Rightarrow> ((a, None), r))"

definition exampleAuthsDelete ::
  "string \<Rightarrow> string \<Rightarrow> string \<Rightarrow> exampleAuths \<Rightarrow> (Response \<times> string option) \<times> exampleAuths" where
  "exampleAuthsDelete resourceGroup circuitName name r =
     (case r (resourceGroup, circuitName, name) of
        None \<Rightarrow> ((Some 404, Some ''404 Not Found''), r)
      | Some a \<Rightarrow> ((Some 202, None), r((resourceGroup, circuitName, name) := None)))"

definition exampleAuthEnv :: "exampleAuths auth_env" where
  "exampleAuthEnv =
     \<lparr>ParseAzureResourceID = exampleAuthParse,
      expressRouteCircuitResourceName = ''azurerm_express_route_circuit'',
      auths_Get = exampleAuthsGet,
      auths_CreateOrUpdate =
        (\<lambda>resourceGroup circuitName name properties r.
           (None, r((resourceGroup, circuitName, name) \<mapsto> exampleAuth))),
      auths_Delete = exampleAuthsDelete,
      auths_WaitForCompletionRef = (\<lambda>r. ((Some 200, None), r))\<rparr>"

definition exampleAuthAttrs :: "(string \<times> string) list" where
  "exampleAuthAttrs = [(''name'', ''auth1''), (''resource_group_name'', ''rg1''),
                       (''express_route_circuit_name'', ''circuit1'')]"

definition exampleAuthWorld :: "string \<Rightarrow> exampleAuths \<Rightarrow> (auth_call, exampleAuths) world" where
  "exampleAuthWorld ident r = \<lparr>rd = exampleData ident exampleAuthAttrs, remote = r, trace = []\<rparr>"

definition exampleRid :: ResourceID where
  "exampleRid = \<lparr>ResourceGroup = ''rg1'', Path = [''networkInterfaces'' \<mapsto> ''nic1'']\<rparr>"

definition exampleAuthRid :: ResourceID where
  "exampleAuthRid = \<lparr>ResourceGroup = ''rg1'',
      Path = [''expressRouteCircuits'' \<mapsto> ''circuit1'', ''authorizations'' \<mapsto> ''auth1'']\<rparr>"

definition exampleAuthEnvGone :: "exampleAuths auth_env" where
  "exampleAuthEnvGone =
     exampleAuthEnv\<lparr>auths_WaitForCompletionRef := (\<lambda>r. ((Some 404, Some ''404 Not Found''), r))\<rparr>"

text \<open>
  For the dedicated host: the delete and the wait for it succeed; then two fetches find
  the host, five get a 404, one finds it again, and \<open>m\<close> get a 404. The fetches
  arrive 10 seconds apart, the first 10 seconds after the start of the wait, and no
  further answer arrives.
\<close>

definition exampleHostAnswers :: "nat \<Rightarrow> (DedicatedHost \<times> string option) list" where
  "exampleHostAnswers m =
     replicate 2 (\<lparr>host_Response = Some 200\<rparr>, None)
     @ replicate 5 (\<lparr>host_Response = Some 404\<rparr>, Some ''404 Not Found'')
     @ [(\<lparr>host_Response = Some 200\<rparr>, None)]
     @ replicate m (\<lparr>host_Response = Some 404\<rparr>, Some ''404 Not Found'')"

definition exampleHostPolls :: "nat \<Rightarrow> (nat \<times> DedicatedHost \<times> string option) list" where
  "exampleHostPolls m =
     zip (map (\<lambda>i. 10 * Suc i) [0..<length (exampleHostAnswers m)]) (exampleHostAnswers m)"

definition exampleHostId :: DedicatedHostId where
  "exampleHostId = \<lparr>host_ResourceGroup = ''rg1'', HostGroupName = ''group1'', HostName = ''host1''\<rparr>"

definition exampleHostEnv :: "nat \<Rightarrow> nat \<Rightarrow> unit host_env" where
  "exampleHostEnv m timeout =
     \<lparr>DedicatedHostID = (\<lambda>s. Inr exampleHostId),
      hosts_Delete = (\<lambda>resourceGroup hostGroupName hostName r. (None, r)),
      hosts_WaitForCompletionRef = (\<lambda>r. ((Some 200, None), r)),
      hosts_GetPolls = (\<lambda>resourceGroup hostGroupName hostName r. exampleHostPolls m),
      timeoutDelete = timeout\<rparr>"

definition exampleHostWorld :: "(host_call, unit) world" where
  "exampleHostWorld = \<lparr>rd = exampleData ''host1'' [], remote = (), trace = []\<rparr>"

definition exampleHostTrace :: "nat \<Rightarrow> host_call event list" where
  "exampleHostTrace m =
     [Remote (HostsDelete ''rg1'' ''group1'' ''host1''), Remote HostsWaitForCompletionRef]
     @ replicate m (Remote (HostsGet ''rg1'' ''group1'' ''host1''))"

definition exampleHostTimeout :: error where
  "exampleHostTimeout =
     Errorw ''Error waiting for Dedicated Host %q (Host Group Name %q / Resource Group %q) to become available: %+v''
       [''host1'', ''group1'', ''rg1''] OperationTimeout"

text \<open>
  For job schedules: an automation account holding one job schedule for schedule1 and
  runbook1, listed with a given \<open>JobScheduleID\<close>; the next fresh UUID is known.
\<close>

type_synonym exampleJobs = "string \<rightharpoonup> JobSchedule"

definition exampleOldUuid :: string where
  "exampleOldUuid = ''11111111-1111-1111-1111-111111111111''"

definition exampleNewUuid :: string where
  "exampleNewUuid = ''22222222-2222-2222-2222-222222222222''"

definition exampleJobId :: "string \<Rightarrow> string" where
  "exampleJobId u = ''/subscriptions/s1/resourceGroups/rg1/providers/Microsoft.Automation/automationAccounts/acct1/jobSchedules/'' @ u"

definition exampleJob :: "string \<Rightarrow> string \<Rightarrow> JobSchedule" where
  "exampleJob u listedId =
     \<lparr>js_Response = Some 200, js_ID = Some (exampleJobId u),
      js_JobScheduleProperties =
        Some \<lparr>JobScheduleID = Some listedId,
              Schedule = Some \<lparr>schedule_Name = Some ''schedule1''\<rparr>,
              Runbook = Some \<lparr>runbook_Name = Some ''runbook1''\<rparr>,
              RunOn = None, Parameters = None\<rparr>\<rparr>"

definition exampleJobEnv :: "exampleJobs js_env" where
  "exampleJobEnv =
     \<lparr>ParseAzureResourceID =
        (\<lambda>s. if s = exampleJobId exampleNewUuid
             then Inr \<lparr>ResourceGroup = ''rg1'',
                       Path = [''automationAccounts'' \<mapsto> ''acct1'',
                               ''jobSchedules'' \<mapsto> exampleNewUuid]\<rparr>
             else Inl (Errorf ''Cannot parse Azure ID: %s'' [s])),
      uuid_NewV4 = Inr exampleNewUuid,
      uuid_FromString =
        (\<lambda>s. if s = exampleOldUuid \<or> s = exampleNewUuid then Inr s
             else Inl ''uuid: incorrect UUID format''),
      strings_ToLower = (\<lambda>s. s),
      jobs_Get =
        (\<lambda>resourceGroup accountName u r.
           case r u of
             None \<Rightarrow> ((\<lparr>js_Response = Some 404, js_ID = None,
                          js_JobScheduleProperties = None\<rparr>, Some ''404 Not Found''), r)
           | Some js \<Rightarrow> ((js, None), r)),
      jobs_ListByAutomationAccountComplete =
        (\<lambda>resourceGroup accountName r.
           (case r exampleOldUuid of None \<Rightarrow> [] | Some js \<Rightarrow> [(None, js)], r)),
      jobs_Delete =
        (\<lambda>resourceGroup accountName u r. ((Some 200, None), r(u := None))),
      jobs_Create =
        (\<lambda>resourceGroup accountName u properties r.
           (None, r(u \<mapsto> exampleJob u u)))\<rparr>"

definition exampleJobAttrs :: "(string \<times> string) list" where
  "exampleJobAttrs = [(''resource_group_name'', ''rg1''), (''automation_account_name'', ''acct1''),
                      (''runbook_name'', ''runbook1''), (''schedule_name'', ''schedule1'')]"

definition exampleJobWorld :: "string \<Rightarrow> (js_call, exampleJobs) world" where
  "exampleJobWorld listedId =
     \<lparr>rd = exampleData [] exampleJobAttrs,
      remote = [exampleOldUuid \<mapsto> exampleJob exampleOldUuid listedId], trace = []\<rparr>"

section \<open>Properties of the identifier codec\<close>

lemma Split_not_Nil: "Split s sep \<noteq> []"
  by (induction s) (auto split: list.splits)

lemma Split_no_sep: "sep \<notin> set s \<Longrightarrow> Split s sep = [s]"
  by (induction s) auto

lemma Split_append_sep: "sep \<notin> set a \<Longrightarrow> Split (a @ sep # b) sep = a # Split b sep"
  by (induction a) auto

lemma length_Split: "length (Split s sep) = Suc (length (filter (\<lambda>c. c = sep) s))"
  by (induction s) (auto split: list.splits simp: Split_not_Nil)

text \<open>
  Claim C4. For identifiers \<open>a\<close> and \<open>b\<close> that contain no pipe character, splitting the
  joined composite string \<open>a|b\<close> on the pipe yields exactly the two parts \<open>a\<close> and \<open>b\<close>:
  the length test of Read and Delete passes and \<open>splitId[0]\<close>, \<open>splitId[1]\<close> are the
  identifiers that Create joined.
\<close>

theorem split_join_inverse:
  assumes "CHR ''|'' \<notin> set a" and "CHR ''|'' \<notin> set b"
  shows "Split (resourceId a b) CHR ''|'' = [a, b]
       \<and> length (Split (resourceId a b) CHR ''|'') = 2
       \<and> Split (resourceId a b) CHR ''|'' ! 0 = a
       \<and> Split (resourceId a b) CHR ''|'' ! 1 = b"
proof -
  have "Split (resourceId a b) CHR ''|'' = a # Split b CHR ''|''"
    using assms(1) by (simp add: resourceId_def Split_append_sep)
  also have "\<dots> = [a, b]"
    using assms(2) by (simp add: Split_no_sep)
  finally show ?thesis by simp
qed

theorem split_join_inverse_witness:
  "Split (resourceId ''/nic1'' ''/asg1'') CHR ''|'' = [''/nic1'', ''/asg1'']"
  using split_join_inverse [of "''/nic1''" "''/asg1''"] by simp

section \<open>Properties of the association handlers\<close>

text \<open>
  A handler that takes a named lock releases it as its last step, whatever the part
  that runs holding the lock returns.
\<close>

lemma locked_releases:
  "trace (snd (locked name resource body w)) =
     trace (snd (body (emit (LockByName name resource) w))) @ [UnlockByName name resource]
   \<and> fst (locked name resource body w) = fst (body (emit (LockByName name resource) w))"
  by (simp add: locked_def emit_def split_beta)

lemma existsLoop_eq: "existsLoop xs a e = (e \<or> a \<in> set xs)"
  by (induction xs a e rule: existsLoop.induct) auto

lemma removeLoop_eq: "removeLoop xs a acc = acc @ filter (\<lambda>v. v \<noteq> a) xs"
  by (induction xs a acc rule: removeLoop.induct) auto

lemmas nic_defs =
  resourceNetworkInterfaceApplicationSecurityGroupAssociationCreate_def
  resourceNetworkInterfaceApplicationSecurityGroupAssociationRead_def
  resourceNetworkInterfaceApplicationSecurityGroupAssociationDelete_def
  createHoldingLock_def deleteHoldingLock_def locked_def call_def emit_def setId_def
  setAttr_def SliceContainsValue_def resourceId_def existsLoop_eq removeLoop_eq

lemmas example_defs =
  exampleEnv_def exampleParse_def exampleGet_def exampleCreateOrUpdate_def exampleNic_def
  exampleRemote_def exampleData_def exampleWorld_def d_Get_def d_SetId_def d_Set_def
  PathAt_def ResponseWasNotFound_def Let_def

lemma example_split:
  "Split (exampleNicId @ ''|'' @ b) CHR ''|'' = exampleNicId # Split b CHR ''|''"
  by (simp add: Split_append_sep exampleNicId_def)

text \<open>
  Claim C1. Create of an association: when the parent network interface is fetched
  without error, its properties and IP configurations are not nil, and the application
  security group id is absent from the association list read out of it, Create sends
  the interface back to the remote API with that id appended at the end of the list,
  and, the write and the wait for its completion having succeeded, sets the resource
  identifier to \<open>{networkInterfaceId}|{applicationSecurityGroupId}\<close>. It then finishes
  with Read on that state and releases the lock.
\<close>

theorem create_appends_and_sets_id:
  assumes "d_Get (rd w) ''network_interface_id'' = networkInterfaceId"
    and "d_Get (rd w) ''application_security_group_id'' = applicationSecurityGroupId"
    and "ParseAzureResourceID env networkInterfaceId = Inr rid"
    and "PathAt rid ''networkInterfaces'' = name"
    and "ResourceGroup rid = resourceGroup"
    and "client_Get env resourceGroup name (remote w) = ((read, None), ra)"
    and "nic_InterfacePropertiesFormat read = Some props"
    and "IPConfigurations props = Some cfgs"
    and "parseFieldsFromNetworkInterface env props = info"
    and "applicationSecurityGroupId \<notin> set (applicationSecurityGroupIDs info)"
    and "written = read\<lparr>nic_InterfacePropertiesFormat :=
           Some (props\<lparr>IPConfigurations :=
             mapFieldsToNetworkInterface env (Some cfgs)
               (info\<lparr>applicationSecurityGroupIDs :=
                  applicationSecurityGroupIDs info @ [applicationSecurityGroupId]\<rparr>)\<rparr>)\<rparr>"
    and "client_CreateOrUpdate env resourceGroup name written ra = (None, rb)"
    and "future_WaitForCompletionRef env rb = (None, rc)"
  shows "resourceNetworkInterfaceApplicationSecurityGroupAssociationCreate env w =
         (case resourceNetworkInterfaceApplicationSecurityGroupAssociationRead env
                 (w\<lparr>rd := d_SetId (networkInterfaceId @ ''|'' @ applicationSecurityGroupId) (rd w),
                    remote := rc,
                    trace := trace w @
                      [LockByName name (networkInterfaceResourceName env),
                       Remote (InterfacesGet resourceGroup name),
                       Remote (InterfacesCreateOrUpdate resourceGroup name written),
                       Remote WaitForCompletionRef]\<rparr>) of
            (err, w') \<Rightarrow> (err, emit (UnlockByName name (networkInterfaceResourceName env)) w'))"
  using assms
  by (cases w)
     (simp add: resourceNetworkInterfaceApplicationSecurityGroupAssociationCreate_def
      locked_def createHoldingLock_def call_def emit_def setId_def SliceContainsValue_def
      resourceId_def)

theorem create_appends_and_sets_id_witness:
  "fst (resourceNetworkInterfaceApplicationSecurityGroupAssociationCreate exampleEnv
          (exampleWorld [] exampleAttrs (exampleRemote []))) = None
   \<and> d_Id (rd (snd (resourceNetworkInterfaceApplicationSecurityGroupAssociationCreate exampleEnv
          (exampleWorld [] exampleAttrs (exampleRemote []))))) = exampleNicId @ ''|/asg1''
   \<and> remote (snd (resourceNetworkInterfaceApplicationSecurityGroupAssociationCreate exampleEnv
          (exampleWorld [] exampleAttrs (exampleRemote [])))) (''rg1'', ''nic1'')
       = Some (exampleNic [''/asg1''])
   \<and> trace (snd (resourceNetworkInterfaceApplicationSecurityGroupAssociationCreate exampleEnv
          (exampleWorld [] exampleAttrs (exampleRemote []))))
       = [LockByName ''nic1'' ''azurerm_network_interface'',
          Remote (InterfacesGet ''rg1'' ''nic1''),
          Remote (InterfacesCreateOrUpdate ''rg1'' ''nic1'' (exampleNic [''/asg1''])),
          Remote WaitForCompletionRef,
          Remote (InterfacesGet ''rg1'' ''nic1''),
          UnlockByName ''nic1'' ''azurerm_network_interface'']"
proof -
  let ?w = "exampleWorld [] exampleAttrs (exampleRemote [])"
  let ?r = "(exampleRemote [])((''rg1'', ''nic1'') \<mapsto> exampleNic [''/asg1''])"
  have "resourceNetworkInterfaceApplicationSecurityGroupAssociationCreate exampleEnv ?w =
        (case resourceNetworkInterfaceApplicationSecurityGroupAssociationRead exampleEnv
                 (?w\<lparr>rd := d_SetId (exampleNicId @ ''|'' @ ''/asg1'') (rd ?w),
                    remote := ?r,
                    trace := trace ?w @
                      [LockByName ''nic1'' (networkInterfaceResourceName exampleEnv),
                       Remote (InterfacesGet ''rg1'' ''nic1''),
                       Remote (InterfacesCreateOrUpdate ''rg1'' ''nic1'' (exampleNic [''/asg1''])),
                       Remote WaitForCompletionRef]\<rparr>) of
            (err, w') \<Rightarrow> (err, emit (UnlockByName ''nic1'' (networkInterfaceResourceName exampleEnv)) w'))"
    by (rule create_appends_and_sets_id
          [where rid = "\<lparr>ResourceGroup = ''rg1'', Path = [''networkInterfaces'' \<mapsto> ''nic1'']\<rparr>"
             and read = "exampleNic []" and ra = "exampleRemote []"
             and props = "\<lparr>IPConfigurations = Some []\<rparr>" and cfgs = "[]"
             and info = "\<lparr>applicationSecurityGroupIDs = []\<rparr>" and rb = "?r"])
       (simp_all add: example_defs exampleAttrs_def)
  note create = this
  let ?w1 = "?w\<lparr>rd := d_SetId (exampleNicId @ ''|'' @ ''/asg1'') (rd ?w),
                remote := ?r,
                trace := trace ?w @
                  [LockByName ''nic1'' (networkInterfaceResourceName exampleEnv),
                   Remote (InterfacesGet ''rg1'' ''nic1''),
                   Remote (InterfacesCreateOrUpdate ''rg1'' ''nic1'' (exampleNic [''/asg1''])),
                   Remote WaitForCompletionRef]\<rparr>"
  let ?read = "resourceNetworkInterfaceApplicationSecurityGroupAssociationRead exampleEnv ?w1"
  have read: "fst ?read = None \<and> d_Id (rd (snd ?read)) = exampleNicId @ ''|/asg1''
       \<and> remote (snd ?read) = ?r
       \<and> trace (snd ?read) = trace ?w1 @ [Remote (InterfacesGet ''rg1'' ''nic1'')]"
    by (simp add: resourceNetworkInterfaceApplicationSecurityGroupAssociationRead_def Let_def
        call_def emit_def setId_def setAttr_def existsLoop_eq example_defs
        example_split [of "''/asg1''", simplified] Split_no_sep)
  show ?thesis
    unfolding create using read
    by (simp add: split_beta emit_def exampleWorld_def exampleEnv_def)
qed

text \<open>
  Claim C2. Delete of an association: when the parent network interface is fetched
  without error with properties and IP configurations that are not nil, the list sent
  back to the remote API is the list read out of the interface with every occurrence
  of the application security group id removed, the other entries kept in their order;
  the write and the wait for its completion having succeeded, Delete returns nil, and
  the lock it took is released as its last step. The schema values are left unchanged.
\<close>

theorem delete_removes_membership:
  assumes "Split (d_Id (rd w)) CHR ''|'' = [networkInterfaceId, applicationSecurityGroupId]"
    and "ParseAzureResourceID env networkInterfaceId = Inr rid"
    and "PathAt rid ''networkInterfaces'' = name"
    and "ResourceGroup rid = resourceGroup"
    and "client_Get env resourceGroup name (remote w) = ((read, None), ra)"
    and "nic_InterfacePropertiesFormat read = Some props"
    and "IPConfigurations props = Some cfgs"
    and "parseFieldsFromNetworkInterface env props = info"
    and "written = read\<lparr>nic_InterfacePropertiesFormat :=
           Some (props\<lparr>IPConfigurations :=
             mapFieldsToNetworkInterface env (Some cfgs)
               (info\<lparr>applicationSecurityGroupIDs :=
                  filter (\<lambda>v. v \<noteq> applicationSecurityGroupId)
                    (applicationSecurityGroupIDs info)\<rparr>)\<rparr>)\<rparr>"
    and "client_CreateOrUpdate env resourceGroup name written ra = (None, rb)"
    and "future_WaitForCompletionRef env rb = (None, rc)"
  shows "resourceNetworkInterfaceApplicationSecurityGroupAssociationDelete env w =
         (None,
          w\<lparr>remote := rc,
            trace := trace w @
              [LockByName name (networkInterfaceResourceName env),
               Remote (InterfacesGet resourceGroup name),
               Remote (InterfacesCreateOrUpdate resourceGroup name written),
               Remote WaitForCompletionRef,
               UnlockByName name (networkInterfaceResourceName env)]\<rparr>)"
  using assms
  by (cases w)
     (simp add: resourceNetworkInterfaceApplicationSecurityGroupAssociationDelete_def
      locked_def deleteHoldingLock_def call_def emit_def removeLoop_eq)

theorem delete_removes_membership_witness:
  "resourceNetworkInterfaceApplicationSecurityGroupAssociationDelete exampleEnv
     (exampleWorld (exampleNicId @ ''|/asg1'') exampleAttrs (exampleRemote [''/asg1'', ''/asg2'']))
   = (None,
      (exampleWorld (exampleNicId @ ''|/asg1'') exampleAttrs (exampleRemote [''/asg1'', ''/asg2'']))
      \<lparr>remote := (exampleRemote [''/asg1'', ''/asg2''])((''rg1'', ''nic1'') \<mapsto> exampleNic [''/asg2'']),
       trace := [LockByName ''nic1'' ''azurerm_network_interface'',
                 Remote (InterfacesGet ''rg1'' ''nic1''),
                 Remote (InterfacesCreateOrUpdate ''rg1'' ''nic1'' (exampleNic [''/asg2''])),
                 Remote WaitForCompletionRef,
                 UnlockByName ''nic1'' ''azurerm_network_interface'']\<rparr>)"
  using delete_removes_membership
          [where w = "exampleWorld (exampleNicId @ ''|/asg1'') exampleAttrs (exampleRemote [''/asg1'', ''/asg2''])"
             and env = exampleEnv and networkInterfaceId = exampleNicId
             and applicationSecurityGroupId = "''/asg1''"
             and rid = "\<lparr>ResourceGroup = ''rg1'', Path = [''networkInterfaces'' \<mapsto> ''nic1'']\<rparr>"
             and name = "''nic1''" and resourceGroup = "''rg1''"
             and read = "exampleNic [''/asg1'', ''/asg2'']"
             and ra = "exampleRemote [''/asg1'', ''/asg2'']"
             and props = "\<lparr>IPConfigurations = Some [''/asg1'', ''/asg2'']\<rparr>"
             and cfgs = "[''/asg1'', ''/asg2'']"
             and info = "\<lparr>applicationSecurityGroupIDs = [''/asg1'', ''/asg2'']\<rparr>"
             and written = "exampleNic [''/asg2'']"
             and rb = "(exampleRemote [''/asg1'', ''/asg2''])((''rg1'', ''nic1'') \<mapsto> exampleNic [''/asg2''])"
             and rc = "(exampleRemote [''/asg1'', ''/asg2''])((''rg1'', ''nic1'') \<mapsto> exampleNic [''/asg2''])"]
  by (simp add: example_defs exampleAttrs_def example_split [of "''/asg1''", simplified] Split_no_sep)

lemmas auth_defs =
  resourceExpressRouteCircuitAuthorizationCreate_def
  resourceExpressRouteCircuitAuthorizationDelete_def
  authorizationCreateHoldingLock_def authorizationDeleteHoldingLock_def
  locked_def call_def emit_def

lemmas exampleAuth_defs =
  exampleAuthEnv_def exampleAuthParse_def exampleAuthsGet_def exampleAuthsDelete_def
  exampleAuthWorld_def exampleAuthAttrs_def exampleData_def d_Get_def PathAt_def
  ResponseWasNotFound_def WasNotFound_def Let_def

text \<open>
  Claim C3, as the code has it. Read and Delete test only the number of parts: an
  identifier whose split on the pipe does not give exactly two parts is rejected with
  the format error before any lock is taken or remote call made, and the schema values
  stay as they were. With two parts, a first part the resource id parser rejects ends
  the handler the same way with the parser's error. Empty parts are not tested.
\<close>

theorem malformed_id_rejected:
  "(length (Split (d_Id (rd w)) CHR ''|'') \<noteq> 2 \<longrightarrow>
      resourceNetworkInterfaceApplicationSecurityGroupAssociationRead env w =
        (Some (Errorf ''Expected ID to be in the format {networkInterfaceId}|{applicationSecurityGroupId} but got %q''
                 [d_Id (rd w)]), w)
    \<and> resourceNetworkInterfaceApplicationSecurityGroupAssociationDelete env w =
        (Some (Errorf ''Expected ID to be in the format {networkInterfaceId}|{applicationSecurityGroupId} but got %q''
                 [d_Id (rd w)]), w))
   \<and> (length (Split (d_Id (rd w)) CHR ''|'') = 2
        \<and> ParseAzureResourceID env (Split (d_Id (rd w)) CHR ''|'' ! 0) = Inl err \<longrightarrow>
      resourceNetworkInterfaceApplicationSecurityGroupAssociationRead env w = (Some err, w)
    \<and> resourceNetworkInterfaceApplicationSecurityGroupAssociationDelete env w = (Some err, w))"
  by (simp add: resourceNetworkInterfaceApplicationSecurityGroupAssociationRead_def
      resourceNetworkInterfaceApplicationSecurityGroupAssociationDelete_def Let_def)

theorem malformed_id_rejected_witness:
  "resourceNetworkInterfaceApplicationSecurityGroupAssociationRead exampleEnv
     (exampleWorld ''a|b|c'' [] (exampleRemote []))
   = (Some (Errorf ''Expected ID to be in the format {networkInterfaceId}|{applicationSecurityGroupId} but got %q''
              [''a|b|c'']), exampleWorld ''a|b|c'' [] (exampleRemote []))
   \<and> resourceNetworkInterfaceApplicationSecurityGroupAssociationDelete exampleEnv
     (exampleWorld ''|/asg1'' [] (exampleRemote []))
   = (Some (Errorf ''Cannot parse Azure ID: %s'' [[]]), exampleWorld ''|/asg1'' [] (exampleRemote []))"
  using malformed_id_rejected [of "exampleWorld ''a|b|c'' [] (exampleRemote [])" exampleEnv]
    malformed_id_rejected [of "exampleWorld ''|/asg1'' [] (exampleRemote [])" exampleEnv
      "Errorf ''Cannot parse Azure ID: %s'' [[]]"]
  by (simp add: exampleWorld_def exampleData_def exampleEnv_def exampleParse_def exampleNicId_def)

text \<open>
  Against claim C3 as stated: the identifier made of a network interface id and an empty
  second part splits into two parts, one of them empty, and is not rejected. Delete takes
  the lock, fetches the interface, writes it back and returns nil; Read fetches the
  interface and, finding no membership for the empty id, clears the identifier and
  returns nil.
\<close>

theorem empty_segment_not_rejected:
  "Split (exampleNicId @ ''|'') CHR ''|'' = [exampleNicId, []]
   \<and> fst (resourceNetworkInterfaceApplicationSecurityGroupAssociationDelete exampleEnv
            (exampleWorld (exampleNicId @ ''|'') exampleAttrs (exampleRemote [''/asg1'']))) = None
   \<and> trace (snd (resourceNetworkInterfaceApplicationSecurityGroupAssociationDelete exampleEnv
            (exampleWorld (exampleNicId @ ''|'') exampleAttrs (exampleRemote [''/asg1'']))))
      = [LockByName ''nic1'' ''azurerm_network_interface'',
         Remote (InterfacesGet ''rg1'' ''nic1''),
         Remote (InterfacesCreateOrUpdate ''rg1'' ''nic1'' (exampleNic [''/asg1''])),
         Remote WaitForCompletionRef,
         UnlockByName ''nic1'' ''azurerm_network_interface'']
   \<and> fst (resourceNetworkInterfaceApplicationSecurityGroupAssociationRead exampleEnv
            (exampleWorld (exampleNicId @ ''|'') exampleAttrs (exampleRemote [''/asg1'']))) = None
   \<and> trace (snd (resourceNetworkInterfaceApplicationSecurityGroupAssociationRead exampleEnv
            (exampleWorld (exampleNicId @ ''|'') exampleAttrs (exampleRemote [''/asg1'']))))
      = [Remote (InterfacesGet ''rg1'' ''nic1'')]
   \<and> d_Id (rd (snd (resourceNetworkInterfaceApplicationSecurityGroupAssociationRead exampleEnv
            (exampleWorld (exampleNicId @ ''|'') exampleAttrs (exampleRemote [''/asg1'']))))) = []"
  by (simp add: nic_defs example_defs exampleAttrs_def example_split [of "[]", simplified])

text \<open>
  Claim C5. Create on an existing resource: for an association, when the application
  security group id is already in the list read out of the fetched interface, and for
  an express route circuit authorization that is new to the state, when the check
  fetches an authorization with a non-empty id, Create returns the import-as-exists
  error. The only remote call in the trace is the fetch: nothing is written, and the
  schema values are unchanged.
\<close>

theorem create_existing_is_import_error:
  "(d_Get (rd w) ''network_interface_id'' = networkInterfaceId
      \<and> d_Get (rd w) ''application_security_group_id'' = applicationSecurityGroupId
      \<and> ParseAzureResourceID env networkInterfaceId = Inr rid
      \<and> PathAt rid ''networkInterfaces'' = name
      \<and> ResourceGroup rid = resourceGroup
      \<and> client_Get env resourceGroup name (remote w) = ((read, None), ra)
      \<and> nic_InterfacePropertiesFormat read = Some props
      \<and> IPConfigurations props = Some cfgs
      \<and> applicationSecurityGroupId
           \<in> set (applicationSecurityGroupIDs (parseFieldsFromNetworkInterface env props))
    \<longrightarrow> resourceNetworkInterfaceApplicationSecurityGroupAssociationCreate env w =
          (Some (ImportAsExistsError
                   ''azurerm_network_interface_application_security_group_association''
                   (networkInterfaceId @ ''|'' @ applicationSecurityGroupId)),
           w\<lparr>remote := ra,
             trace := trace w @
               [LockByName name (networkInterfaceResourceName env),
                Remote (InterfacesGet resourceGroup name),
                UnlockByName name (networkInterfaceResourceName env)]\<rparr>))
   \<and> (d_IsNewResource (rd v)
      \<and> d_Get (rd v) ''name'' = authName
      \<and> d_Get (rd v) ''resource_group_name'' = authGroup
      \<and> d_Get (rd v) ''express_route_circuit_name'' = circuitName
      \<and> auths_Get aenv authGroup circuitName authName (remote v) = ((existing, err), rb)
      \<and> (err = None \<or> ResponseWasNotFound (auth_Response existing))
      \<and> auth_ID existing = Some ident \<and> ident \<noteq> []
    \<longrightarrow> resourceExpressRouteCircuitAuthorizationCreate aenv v =
          (Some (ImportAsExistsError ''azurerm_express_route_circuit_authorization'' ident),
           v\<lparr>remote := rb,
             trace := trace v @
               [LockByName circuitName (expressRouteCircuitResourceName aenv),
                Remote (AuthsGet authGroup circuitName authName),
                UnlockByName circuitName (expressRouteCircuitResourceName aenv)]\<rparr>))"
proof -
  have nic: "resourceNetworkInterfaceApplicationSecurityGroupAssociationCreate env w =
          (Some (ImportAsExistsError
                   ''azurerm_network_interface_application_security_group_association''
                   (networkInterfaceId @ ''|'' @ applicationSecurityGroupId)),
           w\<lparr>remote := ra,
             trace := trace w @
               [LockByName name (networkInterfaceResourceName env),
                Remote (InterfacesGet resourceGroup name),
                UnlockByName name (networkInterfaceResourceName env)]\<rparr>)"
    if "d_Get (rd w) ''network_interface_id'' = networkInterfaceId"
      "d_Get (rd w) ''application_security_group_id'' = applicationSecurityGroupId"
      "ParseAzureResourceID env networkInterfaceId = Inr rid"
      "PathAt rid ''networkInterfaces'' = name"
      "ResourceGroup rid = resourceGroup"
      "client_Get env resourceGroup name (remote w) = ((read, None), ra)"
      "nic_InterfacePropertiesFormat read = Some props"
      "IPConfigurations props = Some cfgs"
      "applicationSecurityGroupId
           \<in> set (applicationSecurityGroupIDs (parseFieldsFromNetworkInterface env props))"
    using that
    by (cases w)
       (simp add: resourceNetworkInterfaceApplicationSecurityGroupAssociationCreate_def
        locked_def createHoldingLock_def call_def emit_def SliceContainsValue_def resourceId_def)
  have auth: "resourceExpressRouteCircuitAuthorizationCreate aenv v =
          (Some (ImportAsExistsError ''azurerm_express_route_circuit_authorization'' ident),
           v\<lparr>remote := rb,
             trace := trace v @
               [LockByName circuitName (expressRouteCircuitResourceName aenv),
                Remote (AuthsGet authGroup circuitName authName),
                UnlockByName circuitName (expressRouteCircuitResourceName aenv)]\<rparr>)"
    if "d_IsNewResource (rd v)"
      "d_Get (rd v) ''name'' = authName"
      "d_Get (rd v) ''resource_group_name'' = authGroup"
      "d_Get (rd v) ''express_route_circuit_name'' = circuitName"
      "auths_Get aenv authGroup circuitName authName (remote v) = ((existing, err), rb)"
      "err = None \<or> ResponseWasNotFound (auth_Response existing)"
      "auth_ID existing = Some ident" "ident \<noteq> []"
    using that
    by (cases v)
       (auto simp add: resourceExpressRouteCircuitAuthorizationCreate_def
        locked_def authorizationCreateHoldingLock_def call_def emit_def)
  show ?thesis using nic auth by blast
qed

theorem create_existing_is_import_error_witness:
  "resourceNetworkInterfaceApplicationSecurityGroupAssociationCreate exampleEnv
     (exampleWorld [] exampleAttrs (exampleRemote [''/asg1'']))
   = (Some (ImportAsExistsError
              ''azurerm_network_interface_application_security_group_association''
              (exampleNicId @ ''|/asg1'')),
      (exampleWorld [] exampleAttrs (exampleRemote [''/asg1'']))
      \<lparr>remote := exampleRemote [''/asg1''],
       trace := [LockByName ''nic1'' ''azurerm_network_interface'',
                 Remote (InterfacesGet ''rg1'' ''nic1''),
                 UnlockByName ''nic1'' ''azurerm_network_interface'']\<rparr>)
   \<and> resourceExpressRouteCircuitAuthorizationCreate exampleAuthEnv
     (exampleAuthWorld [] [(''rg1'', ''circuit1'', ''auth1'') \<mapsto> exampleAuth])
   = (Some (ImportAsExistsError ''azurerm_express_route_circuit_authorization'' exampleAuthId),
      (exampleAuthWorld [] [(''rg1'', ''circuit1'', ''auth1'') \<mapsto> exampleAuth])
      \<lparr>remote := [(''rg1'', ''circuit1'', ''auth1'') \<mapsto> exampleAuth],
       trace := [LockByName ''circuit1'' ''azurerm_express_route_circuit'',
                 Remote (AuthsGet ''rg1'' ''circuit1'' ''auth1''),
                 UnlockByName ''circuit1'' ''azurerm_express_route_circuit'']\<rparr>)"
  using create_existing_is_import_error
          [where w = "exampleWorld [] exampleAttrs (exampleRemote [''/asg1''])" and env = exampleEnv
             and networkInterfaceId = exampleNicId and applicationSecurityGroupId = "''/asg1''"
             and rid = "\<lparr>ResourceGroup = ''rg1'', Path = [''networkInterfaces'' \<mapsto> ''nic1'']\<rparr>"
             and name = "''nic1''" and resourceGroup = "''rg1''"
             and read = "exampleNic [''/asg1'']" and ra = "exampleRemote [''/asg1'']"
             and props = "\<lparr>IPConfigurations = Some [''/asg1'']\<rparr>" and cfgs = "[''/asg1'']"
             and v = "exampleAuthWorld [] [(''rg1'', ''circuit1'', ''auth1'') \<mapsto> exampleAuth]"
             and aenv = exampleAuthEnv and authName = "''auth1''" and authGroup = "''rg1''"
             and circuitName = "''circuit1''" and existing = exampleAuth and err = None
             and rb = "[(''rg1'', ''circuit1'', ''auth1'') \<mapsto> exampleAuth]"
             and ident = exampleAuthId]
  by (simp add: example_defs exampleAttrs_def exampleAuth_defs exampleAuth_def exampleAuthId_def)

text \<open>
  Claim C6, as the code has it. Delete of an express route circuit authorization returns
  nil when the delete call, or the wait for its completion, fails with a 404 response.
  Delete of an association returns an error when the fetch of the parent network
  interface fails with 404; when the interface is there and the membership is already
  gone, it writes the list back unchanged and returns nil.
\<close>

theorem delete_when_absent:
  "(ParseAzureResourceID aenv (d_Id (rd v)) = Inr aid
      \<and> ResourceGroup aid = authGroup
      \<and> PathAt aid ''expressRouteCircuits'' = circuitName
      \<and> PathAt aid ''authorizations'' = authName
      \<and> auths_Delete aenv authGroup circuitName authName (remote v) = ((resp, Some derr), rb)
      \<and> WasNotFound resp
    \<longrightarrow> resourceExpressRouteCircuitAuthorizationDelete aenv v =
          (None,
           v\<lparr>remote := rb,
             trace := trace v @
               [LockByName circuitName (expressRouteCircuitResourceName aenv),
                Remote (AuthsDelete authGroup circuitName authName),
                UnlockByName circuitName (expressRouteCircuitResourceName aenv)]\<rparr>))
   \<and> (ParseAzureResourceID aenv (d_Id (rd v)) = Inr aid
      \<and> ResourceGroup aid = authGroup
      \<and> PathAt aid ''expressRouteCircuits'' = circuitName
      \<and> PathAt aid ''authorizations'' = authName
      \<and> auths_Delete aenv authGroup circuitName authName (remote v) = ((resp, None), rb)
      \<and> auths_WaitForCompletionRef aenv rb = ((resp', Some werr), rc)
      \<and> WasNotFound resp'
    \<longrightarrow> resourceExpressRouteCircuitAuthorizationDelete aenv v =
          (None,
           v\<lparr>remote := rc,
             trace := trace v @
               [LockByName circuitName (expressRouteCircuitResourceName aenv),
                Remote (AuthsDelete authGroup circuitName authName),
                Remote AuthsWaitForCompletionRef,
                UnlockByName circuitName (expressRouteCircuitResourceName aenv)]\<rparr>))
   \<and> (Split (d_Id (rd w)) CHR ''|'' = [networkInterfaceId, applicationSecurityGroupId]
      \<and> ParseAzureResourceID env networkInterfaceId = Inr rid
      \<and> PathAt rid ''networkInterfaces'' = name
      \<and> ResourceGroup rid = resourceGroup
      \<and> client_Get env resourceGroup name (remote w) = ((read, Some err), ra)
      \<and> ResponseWasNotFound (nic_Response read)
    \<longrightarrow> resourceNetworkInterfaceApplicationSecurityGroupAssociationDelete env w =
          (Some (Errorf ''Network Interface %q (Resource Group %q) was not found!''
                   [name, resourceGroup]),
           w\<lparr>remote := ra,
             trace := trace w @
               [LockByName name (networkInterfaceResourceName env),
                Remote (InterfacesGet resourceGroup name),
                UnlockByName name (networkInterfaceResourceName env)]\<rparr>))
   \<and> (Split (d_Id (rd w)) CHR ''|'' = [networkInterfaceId, applicationSecurityGroupId]
      \<and> ParseAzureResourceID env networkInterfaceId = Inr rid
      \<and> PathAt rid ''networkInterfaces'' = name
      \<and> ResourceGroup rid = resourceGroup
      \<and> client_Get env resourceGroup name (remote w) = ((read, None), ra)
      \<and> nic_InterfacePropertiesFormat read = Some props
      \<and> IPConfigurations props = Some cfgs
      \<and> parseFieldsFromNetworkInterface env props = info
      \<and> applicationSecurityGroupId \<notin> set (applicationSecurityGroupIDs info)
      \<and> written = read\<lparr>nic_InterfacePropertiesFormat :=
            Some (props\<lparr>IPConfigurations := mapFieldsToNetworkInterface env (Some cfgs) info\<rparr>)\<rparr>
      \<and> client_CreateOrUpdate env resourceGroup name written ra = (None, rb')
      \<and> future_WaitForCompletionRef env rb' = (None, rc')
    \<longrightarrow> resourceNetworkInterfaceApplicationSecurityGroupAssociationDelete env w =
          (None,
           w\<lparr>remote := rc',
             trace := trace w @
               [LockByName name (networkInterfaceResourceName env),
                Remote (InterfacesGet resourceGroup name),
                Remote (InterfacesCreateOrUpdate resourceGroup name written),
                Remote WaitForCompletionRef,
                UnlockByName name (networkInterfaceResourceName env)]\<rparr>))"
  (is "(?A1 \<longrightarrow> ?C1) \<and> (?A2 \<longrightarrow> ?C2) \<and> (?A3 \<longrightarrow> ?C3) \<and> (?A4 \<longrightarrow> ?C4)")
proof -
  have 1: ?C1 if ?A1
    using that
    by (cases v)
       (clarsimp simp add: resourceExpressRouteCircuitAuthorizationDelete_def locked_def
        authorizationDeleteHoldingLock_def call_def emit_def)
  have 2: ?C2 if ?A2
    using that
    by (cases v)
       (clarsimp simp add: resourceExpressRouteCircuitAuthorizationDelete_def locked_def
        authorizationDeleteHoldingLock_def call_def emit_def)
  have 3: ?C3 if ?A3
    using that
    by (cases w)
       (clarsimp simp add: resourceNetworkInterfaceApplicationSecurityGroupAssociationDelete_def
        locked_def deleteHoldingLock_def call_def emit_def)
  have keep: "filter (\<lambda>v. v \<noteq> applicationSecurityGroupId) (applicationSecurityGroupIDs info)
              = applicationSecurityGroupIDs info"
    if "applicationSecurityGroupId \<notin> set (applicationSecurityGroupIDs info)"
    using that by (auto simp add: filter_id_conv)
  have 4: ?C4 if ?A4
    using that keep
    by (cases w)
       (clarsimp simp add: resourceNetworkInterfaceApplicationSecurityGroupAssociationDelete_def
        locked_def deleteHoldingLock_def call_def emit_def removeLoop_eq Let_def)
  show ?thesis using 1 2 3 4 by blast
qed

theorem delete_when_absent_witness:
  "resourceExpressRouteCircuitAuthorizationDelete exampleAuthEnv
     (exampleAuthWorld exampleAuthId Map.empty)
   = (None,
      (exampleAuthWorld exampleAuthId Map.empty)
      \<lparr>remote := Map.empty,
       trace := [LockByName ''circuit1'' ''azurerm_express_route_circuit'',
                 Remote (AuthsDelete ''rg1'' ''circuit1'' ''auth1''),
                 UnlockByName ''circuit1'' ''azurerm_express_route_circuit'']\<rparr>)
   \<and> resourceExpressRouteCircuitAuthorizationDelete exampleAuthEnvGone
     (exampleAuthWorld exampleAuthId [(''rg1'', ''circuit1'', ''auth1'') \<mapsto> exampleAuth])
   = (None,
      (exampleAuthWorld exampleAuthId [(''rg1'', ''circuit1'', ''auth1'') \<mapsto> exampleAuth])
      \<lparr>remote := Map.empty,
       trace := [LockByName ''circuit1'' ''azurerm_express_route_circuit'',
                 Remote (AuthsDelete ''rg1'' ''circuit1'' ''auth1''),
                 Remote AuthsWaitForCompletionRef,
                 UnlockByName ''circuit1'' ''azurerm_express_route_circuit'']\<rparr>)
   \<and> resourceNetworkInterfaceApplicationSecurityGroupAssociationDelete exampleEnv
     (exampleWorld (exampleNicId @ ''|/asg1'') exampleAttrs Map.empty)
   = (Some (Errorf ''Network Interface %q (Resource Group %q) was not found!'' [''nic1'', ''rg1'']),
      (exampleWorld (exampleNicId @ ''|/asg1'') exampleAttrs Map.empty)
      \<lparr>remote := Map.empty,
       trace := [LockByName ''nic1'' ''azurerm_network_interface'',
                 Remote (InterfacesGet ''rg1'' ''nic1''),
                 UnlockByName ''nic1'' ''azurerm_network_interface'']\<rparr>)
   \<and> resourceNetworkInterfaceApplicationSecurityGroupAssociationDelete exampleEnv
     (exampleWorld (exampleNicId @ ''|/asg1'') exampleAttrs (exampleRemote [''/asg2'']))
   = (None,
      (exampleWorld (exampleNicId @ ''|/asg1'') exampleAttrs (exampleRemote [''/asg2'']))
      \<lparr>remote := (exampleRemote [''/asg2''])((''rg1'', ''nic1'') \<mapsto> exampleNic [''/asg2'']),
       trace := [LockByName ''nic1'' ''azurerm_network_interface'',
                 Remote (InterfacesGet ''rg1'' ''nic1''),
                 Remote (InterfacesCreateOrUpdate ''rg1'' ''nic1'' (exampleNic [''/asg2''])),
                 Remote WaitForCompletionRef,
                 UnlockByName ''nic1'' ''azurerm_network_interface'']\<rparr>)"
  (is "?P1 \<and> ?P2 \<and> ?P3 \<and> ?P4")
proof -
  have split: "Split (exampleNicId @ ''|/asg1'') CHR ''|'' = [exampleNicId, ''/asg1'']"
    using example_split [of "''/asg1''"] by (simp add: Split_no_sep)
  have 1: ?P1
    using delete_when_absent
            [where v = "exampleAuthWorld exampleAuthId Map.empty" and aenv = exampleAuthEnv
               and aid = exampleAuthRid and authGroup = "''rg1''" and circuitName = "''circuit1''"
               and authName = "''auth1''" and resp = "Some 404" and derr = "''404 Not Found''"
               and rb = Map.empty, THEN conjunct1]
    by (simp add: exampleAuth_defs exampleAuthRid_def)
  have 2: ?P2
    using delete_when_absent
            [where v = "exampleAuthWorld exampleAuthId [(''rg1'', ''circuit1'', ''auth1'') \<mapsto> exampleAuth]"
               and aenv = exampleAuthEnvGone
               and aid = exampleAuthRid and authGroup = "''rg1''" and circuitName = "''circuit1''"
               and authName = "''auth1''" and resp = "Some 202" and resp' = "Some 404"
               and werr = "''404 Not Found''" and rb = Map.empty and rc = Map.empty,
             THEN conjunct2, THEN conjunct1]
    by (simp add: exampleAuth_defs exampleAuthRid_def exampleAuthEnvGone_def)
  have 3: ?P3
    using delete_when_absent
            [where w = "exampleWorld (exampleNicId @ ''|/asg1'') exampleAttrs Map.empty"
               and env = exampleEnv and networkInterfaceId = exampleNicId
               and applicationSecurityGroupId = "''/asg1''" and rid = exampleRid
               and name = "''nic1''" and resourceGroup = "''rg1''"
               and read = "\<lparr>nic_Response = Some 404, nic_ID = None,
                             nic_InterfacePropertiesFormat = None\<rparr>"
               and err = "''404 Not Found''" and ra = Map.empty,
             THEN conjunct2, THEN conjunct2, THEN conjunct1]
    by (simp add: example_defs exampleRid_def split)
  have 4: ?P4
    using delete_when_absent
            [where w = "exampleWorld (exampleNicId @ ''|/asg1'') exampleAttrs (exampleRemote [''/asg2''])"
               and env = exampleEnv and networkInterfaceId = exampleNicId
               and applicationSecurityGroupId = "''/asg1''" and rid = exampleRid
               and name = "''nic1''" and resourceGroup = "''rg1''"
               and read = "exampleNic [''/asg2'']" and ra = "exampleRemote [''/asg2'']"
               and props = "\<lparr>IPConfigurations = Some [''/asg2'']\<rparr>" and cfgs = "[''/asg2'']"
               and info = "\<lparr>applicationSecurityGroupIDs = [''/asg2'']\<rparr>"
               and written = "exampleNic [''/asg2'']"
               and rb' = "(exampleRemote [''/asg2''])((''rg1'', ''nic1'') \<mapsto> exampleNic [''/asg2''])"
               and rc' = "(exampleRemote [''/asg2''])((''rg1'', ''nic1'') \<mapsto> exampleNic [''/asg2''])",
             THEN conjunct2, THEN conjunct2, THEN conjunct2]
    by (simp add: example_defs exampleRid_def split)
  show ?thesis using 1 2 3 4 by blast
qed

text \<open>
  Against claim C6 as stated: Delete of an association whose parent network interface
  does not exist any more returns an error, not nil.
\<close>

theorem association_delete_parent_missing_fails:
  "fst (resourceNetworkInterfaceApplicationSecurityGroupAssociationDelete exampleEnv
          (exampleWorld (exampleNicId @ ''|/asg1'') exampleAttrs Map.empty))
   = Some (Errorf ''Network Interface %q (Resource Group %q) was not found!'' [''nic1'', ''rg1''])"
  by (simp add: nic_defs example_defs example_split [of "''/asg1''", simplified] Split_no_sep)

text \<open>
  Claim C7, as the code has it. When the fetch of the parent network interface fails
  in Create, a 404 response makes Create clear the identifier and return nil, having
  written nothing to the remote API and released the lock; any other failure of the
  fetch is returned as an error.
\<close>

theorem create_parent_fetch_error:
  assumes "d_Get (rd w) ''network_interface_id'' = networkInterfaceId"
    and "ParseAzureResourceID env networkInterfaceId = Inr rid"
    and "PathAt rid ''networkInterfaces'' = name"
    and "ResourceGroup rid = resourceGroup"
    and "client_Get env resourceGroup name (remote w) = ((read, Some err), ra)"
  shows "resourceNetworkInterfaceApplicationSecurityGroupAssociationCreate env w =
         (if ResponseWasNotFound (nic_Response read)
          then (None,
                w\<lparr>rd := d_SetId [] (rd w), remote := ra,
                  trace := trace w @
                    [LockByName name (networkInterfaceResourceName env),
                     Remote (InterfacesGet resourceGroup name),
                     UnlockByName name (networkInterfaceResourceName env)]\<rparr>)
          else (Some (Errorf ''Error retrieving Network Interface %q (Resource Group %q): %+v''
                        [name, resourceGroup, err]),
                w\<lparr>remote := ra,
                  trace := trace w @
                    [LockByName name (networkInterfaceResourceName env),
                     Remote (InterfacesGet resourceGroup name),
                     UnlockByName name (networkInterfaceResourceName env)]\<rparr>))"
  using assms
  by (cases w)
     (simp add: resourceNetworkInterfaceApplicationSecurityGroupAssociationCreate_def
      locked_def createHoldingLock_def call_def emit_def setId_def)

theorem create_parent_fetch_error_witness:
  "resourceNetworkInterfaceApplicationSecurityGroupAssociationCreate exampleEnv
     (exampleWorld [] exampleAttrs Map.empty)
   = (None,
      (exampleWorld [] exampleAttrs Map.empty)
      \<lparr>rd := d_SetId [] (rd (exampleWorld [] exampleAttrs Map.empty)), remote := Map.empty,
       trace := [LockByName ''nic1'' ''azurerm_network_interface'',
                 Remote (InterfacesGet ''rg1'' ''nic1''),
                 UnlockByName ''nic1'' ''azurerm_network_interface'']\<rparr>)"
  using create_parent_fetch_error
          [where w = "exampleWorld [] exampleAttrs Map.empty" and env = exampleEnv
             and networkInterfaceId = exampleNicId
             and rid = "\<lparr>ResourceGroup = ''rg1'', Path = [''networkInterfaces'' \<mapsto> ''nic1'']\<rparr>"
             and name = "''nic1''" and resourceGroup = "''rg1''"
             and read = "\<lparr>nic_Response = Some 404, nic_ID = None,
                           nic_InterfacePropertiesFormat = None\<rparr>"
             and err = "''404 Not Found''" and ra = Map.empty]
  by (simp add: example_defs exampleAttrs_def)

text \<open>
  Against claim C7 as stated: Create of an association whose parent network interface
  does not exist returns nil, with an empty identifier.
\<close>

theorem create_parent_missing_returns_nil:
  "fst (resourceNetworkInterfaceApplicationSecurityGroupAssociationCreate exampleEnv
          (exampleWorld [] exampleAttrs Map.empty)) = None
   \<and> d_Id (rd (snd (resourceNetworkInterfaceApplicationSecurityGroupAssociationCreate exampleEnv
          (exampleWorld [] exampleAttrs Map.empty)))) = []"
  by (simp add: nic_defs example_defs exampleAttrs_def)

section \<open>Properties of the wait for a deleted dedicated host\<close>

lemma wait_done_run:
  assumes "WaitForStateContext conf k obs = (None, n)"
    and "k < ContinuousTargetOccurence conf"
  shows "n \<le> length obs
         \<and> list_all (\<lambda>timed. fst timed < Timeout conf) (take n obs)
         \<and> ((n = ContinuousTargetOccurence conf - k
               \<and> list_all (\<lambda>(elapsed, res, st, err). st \<in> set (Target conf) \<and> err = None)
                    (take n obs))
            \<or> (ContinuousTargetOccurence conf \<le> n
               \<and> list_all (\<lambda>(elapsed, res, st, err). st \<in> set (Target conf) \<and> err = None)
                    (drop (n - ContinuousTargetOccurence conf) (take n obs))))"
  using assms
proof (induction obs arbitrary: k n)
  case Nil
  then show ?case by simp
next
  case (Cons ob later)
  obtain elapsed res st err where ob: "ob = (elapsed, res, st, err)" by (cases ob) auto
  let ?C = "ContinuousTargetOccurence conf"
  let ?T = "\<lambda>(elapsed, res, st, err). st \<in> set (Target conf) \<and> err = None"
  let ?B = "\<lambda>timed :: nat \<times> refresh_result. fst timed < Timeout conf"
  from Cons.prems ob have early: "elapsed < Timeout conf"
    by (auto split: if_splits)
  with Cons.prems ob have err: "err = None"
    by (auto split: option.splits)
  show ?case
  proof (cases "st \<in> set (Target conf)")
    case True
    show ?thesis
    proof (cases "?C \<le> Suc k")
      case True
      with \<open>st \<in> set (Target conf)\<close> Cons.prems ob err early have "n = 1" by simp
      moreover from True Cons.prems(2) have "?C - k = 1" by simp
      ultimately show ?thesis using \<open>st \<in> set (Target conf)\<close> ob err early by simp
    next
      case False
      with \<open>st \<in> set (Target conf)\<close> Cons.prems ob err early
      obtain m where m: "WaitForStateContext conf (Suc k) later = (None, m)" and n: "n = Suc m"
        by (auto split: prod.splits)
      from False have "Suc k < ?C" by simp
      from Cons.IH [OF m this]
      have len: "m \<le> length later" and before: "list_all ?B (take m later)"
        and run: "(m = ?C - Suc k \<and> list_all ?T (take m later))
                  \<or> (?C \<le> m \<and> list_all ?T (drop (m - ?C) (take m later)))"
        by auto
      from run show ?thesis
      proof
        assume "m = ?C - Suc k \<and> list_all ?T (take m later)"
        with n len before False \<open>st \<in> set (Target conf)\<close> ob err early show ?thesis by auto
      next
        assume a: "?C \<le> m \<and> list_all ?T (drop (m - ?C) (take m later))"
        then have "Suc m - ?C = Suc (m - ?C)" by (simp add: Suc_diff_le)
        with a n len before ob early show ?thesis by simp
      qed
    qed
  next
    case False
    with Cons.prems ob err early have pend: "st \<in> set (Pending conf)"
      by (auto split: if_splits)
    with False Cons.prems ob err early
    obtain m where m: "WaitForStateContext conf 0 later = (None, m)" and n: "n = Suc m"
      by (auto split: prod.splits)
    from Cons.prems(2) have "0 < ?C" by simp
    from Cons.IH [OF m this]
    have len: "m \<le> length later" and before: "list_all ?B (take m later)"
      and run: "(m = ?C - 0 \<and> list_all ?T (take m later))
                \<or> (?C \<le> m \<and> list_all ?T (drop (m - ?C) (take m later)))"
      by auto
    from run have a: "?C \<le> m \<and> list_all ?T (drop (m - ?C) (take m later))"
      by auto
    then have "Suc m - ?C = Suc (m - ?C)" by (simp add: Suc_diff_le)
    with a n len before ob early show ?thesis by simp
  qed
qed

lemma wait_count_le: "snd (WaitForStateContext conf k obs) \<le> length obs"
proof (induction obs arbitrary: k)
  case Nil
  show ?case by simp
next
  case (Cons ob later)
  obtain elapsed res st err where ob: "ob = (elapsed, res, st, err)" by (cases ob) auto
  show ?case
    using Cons.IH [of 0] Cons.IH [of "Suc k"]
    by (auto simp add: ob split: option.splits prod.splits)
qed

lemma wait_targets:
  "list_all (\<lambda>(elapsed, res, st, err).
               elapsed < Timeout conf \<and> st \<in> set (Target conf) \<and> err = None) run \<Longrightarrow>
   k < ContinuousTargetOccurence conf \<Longrightarrow> ContinuousTargetOccurence conf - k \<le> length run \<Longrightarrow>
   WaitForStateContext conf k (run @ later) = (None, ContinuousTargetOccurence conf - k)"
proof (induction run arbitrary: k)
  case Nil
  then show ?case by simp
next
  case (Cons ob run)
  obtain elapsed res st err where ob: "ob = (elapsed, res, st, err)" by (cases ob) auto
  from Cons.prems(1) ob have here: "elapsed < Timeout conf" "st \<in> set (Target conf)" "err = None"
    and rest: "list_all (\<lambda>(elapsed, res, st, err).
                 elapsed < Timeout conf \<and> st \<in> set (Target conf) \<and> err = None) run"
    by simp_all
  show ?case
  proof (cases "ContinuousTargetOccurence conf \<le> Suc k")
    case True
    with Cons.prems here ob show ?thesis by simp
  next
    case False
    with Cons.prems have "Suc k < ContinuousTargetOccurence conf"
      and "ContinuousTargetOccurence conf - Suc k \<le> length run" by simp_all
    from Cons.IH [OF rest this] False here ob show ?thesis
      by (simp add: Suc_diff_Suc)
  qed
qed

lemma refresh_is_target:
  "(case (case timed of (elapsed, got) \<Rightarrow> (elapsed, dedicatedHostDeletedRefreshFunc got)) of
      (elapsed, res, st, err) \<Rightarrow>
        st \<in> set (Target (dedicatedHostDeleteStateConf t)) \<and> err = None)
   = (case timed of (elapsed, h, e) \<Rightarrow> e \<noteq> None \<and> ResponseWasNotFound (host_Response h))"
  by (cases timed)
     (auto simp add: dedicatedHostDeletedRefreshFunc_def dedicatedHostDeleteStateConf_def
        split: option.splits)

lemma host_delete_result:
  assumes "DedicatedHostID env (d_Id (rd w)) = Inr hid"
    and "hosts_Delete env (host_ResourceGroup hid) (HostGroupName hid) (HostName hid) (remote w)
          = (None, ra)"
    and "hosts_WaitForCompletionRef env ra = ((resp, werr), rb)"
    and "werr = None \<or> WasNotFound resp"
    and "hosts_GetPolls env (host_ResourceGroup hid) (HostGroupName hid) (HostName hid) rb
          = polls"
    and "WaitForStateContext (dedicatedHostDeleteStateConf (timeoutDelete env)) 0
           (map (\<lambda>(elapsed, got). (elapsed, dedicatedHostDeletedRefreshFunc got)) polls)
          = (perr, m)"
  shows "resourceDedicatedHostDelete env w =
            (case perr of
               None \<Rightarrow> None
             | Some pe \<Rightarrow>
                 Some (Errorw ''Error waiting for Dedicated Host %q (Host Group Name %q / Resource Group %q) to become available: %+v''
                         [HostName hid, HostGroupName hid, host_ResourceGroup hid] pe),
             w\<lparr>remote := rb,
               trace := trace w @
                 [Remote (HostsDelete (host_ResourceGroup hid) (HostGroupName hid) (HostName hid)),
                  Remote HostsWaitForCompletionRef]
                 @ replicate m (Remote (HostsGet (host_ResourceGroup hid) (HostGroupName hid)
                                          (HostName hid)))\<rparr>)"
  using assms
  by (cases w; cases werr)
     (auto simp add: resourceDedicatedHostDelete_def call_def emit_def
        waitForDedicatedHostToDisappear_def Let_def split: option.splits)

text \<open>
  Claim C9. The poller that Delete of a dedicated host runs (Pending "Exists", Target
  "NotFound", 20 consecutive Target observations, the delete timeout as deadline): when
  it declares success, at least 20 refreshes were read, all of them arrived before the
  deadline, and the last 20 all observed "NotFound" without error; an "Exists"
  observation arriving before the deadline restarts the count from zero whatever it
  was; 20 "NotFound" observations in a row before the deadline are enough; a result
  arriving at or after the deadline, or none arriving, ends the wait with a timeout
  error. The refresh function classifies a fetch without error as "Exists" and a fetch
  failing with a 404 response as "NotFound". Delete, once its delete call and the wait
  for completion are through, returns what the poller returns on the answers to its
  fetches, the error wrapped, and has made one fetch for each result the poller read.
  So when Delete returns nil, it made at least 20 fetches, no more than were answered,
  all answered before the delete timeout, and the last 20 all failed with a 404.
\<close>

theorem delete_poller_consecutive_not_found:
  "(WaitForStateContext (dedicatedHostDeleteStateConf t) 0 obs = (None, n) \<longrightarrow>
      20 \<le> n \<and> n \<le> length obs
      \<and> list_all (\<lambda>timed. fst timed < t) (take n obs)
      \<and> list_all (\<lambda>(elapsed, res, st, err). st = ''NotFound'' \<and> err = None)
            (drop (n - 20) (take n obs)))
   \<and> (elapsed < t \<longrightarrow>
        WaitForStateContext (dedicatedHostDeleteStateConf t) k
          ((elapsed, res, ''Exists'', None) # later)
        = (case WaitForStateContext (dedicatedHostDeleteStateConf t) 0 later of
             (r, m) \<Rightarrow> (r, Suc m)))
   \<and> (length run = 20
        \<and> list_all (\<lambda>(elapsed, res, st, err). elapsed < t \<and> st = ''NotFound'' \<and> err = None) run
        \<longrightarrow> WaitForStateContext (dedicatedHostDeleteStateConf t) 0 (run @ later) = (None, 20))
   \<and> snd (WaitForStateContext (dedicatedHostDeleteStateConf t) k obs) \<le> length obs
   \<and> WaitForStateContext (dedicatedHostDeleteStateConf t) k [] = (Some OperationTimeout, 0)
   \<and> (t \<le> elapsed \<longrightarrow>
        WaitForStateContext (dedicatedHostDeleteStateConf t) k ((elapsed, ob) # later)
        = (Some OperationTimeout, 0))
   \<and> dedicatedHostDeletedRefreshFunc (host, None) = (HostValue host, ''Exists'', None)
   \<and> (ResponseWasNotFound (host_Response host) \<longrightarrow>
        dedicatedHostDeletedRefreshFunc (host, Some e)
          = (StringValue ''NotFound'', ''NotFound'', None))
   \<and> (DedicatedHostID env (d_Id (rd w)) = Inr hid
        \<and> hosts_Delete env (host_ResourceGroup hid) (HostGroupName hid) (HostName hid) (remote w)
            = (None, ra)
        \<and> hosts_WaitForCompletionRef env ra = ((resp, werr), rb)
        \<and> (werr = None \<or> WasNotFound resp)
        \<and> hosts_GetPolls env (host_ResourceGroup hid) (HostGroupName hid) (HostName hid) rb
            = polls
        \<and> WaitForStateContext (dedicatedHostDeleteStateConf (timeoutDelete env)) 0
             (map (\<lambda>(elapsed, got). (elapsed, dedicatedHostDeletedRefreshFunc got)) polls)
            = (perr, m)
      \<longrightarrow> resourceDedicatedHostDelete env w =
            (case perr of
               None \<Rightarrow> None
             | Some pe \<Rightarrow>
                 Some (Errorw ''Error waiting for Dedicated Host %q (Host Group Name %q / Resource Group %q) to become available: %+v''
                         [HostName hid, HostGroupName hid, host_ResourceGroup hid] pe),
             w\<lparr>remote := rb,
               trace := trace w @
                 [Remote (HostsDelete (host_ResourceGroup hid) (HostGroupName hid) (HostName hid)),
                  Remote HostsWaitForCompletionRef]
                 @ replicate m (Remote (HostsGet (host_ResourceGroup hid) (HostGroupName hid)
                                          (HostName hid)))\<rparr>))
   \<and> (resourceDedicatedHostDelete env w = (None, w') \<longrightarrow>
        (\<exists>gone dr wr fetched.
           DedicatedHostID env (d_Id (rd w)) = Inr gone
           \<and> hosts_Delete env (host_ResourceGroup gone) (HostGroupName gone) (HostName gone)
                (remote w) = (None, dr)
           \<and> snd (hosts_WaitForCompletionRef env dr) = wr
           \<and> 20 \<le> fetched
           \<and> fetched \<le> length (hosts_GetPolls env (host_ResourceGroup gone) (HostGroupName gone)
                                  (HostName gone) wr)
           \<and> w' = w\<lparr>remote := wr,
                    trace := trace w @
                      [Remote (HostsDelete (host_ResourceGroup gone) (HostGroupName gone)
                                 (HostName gone)),
                       Remote HostsWaitForCompletionRef]
                      @ replicate fetched
                          (Remote (HostsGet (host_ResourceGroup gone) (HostGroupName gone)
                                     (HostName gone)))\<rparr>
           \<and> list_all (\<lambda>timed. fst timed < timeoutDelete env)
                (take fetched (hosts_GetPolls env (host_ResourceGroup gone) (HostGroupName gone)
                                 (HostName gone) wr))
           \<and> list_all (\<lambda>(elapsed, h, e). e \<noteq> None \<and> ResponseWasNotFound (host_Response h))
                (drop (fetched - 20)
                   (take fetched (hosts_GetPolls env (host_ResourceGroup gone)
                                    (HostGroupName gone) (HostName gone) wr)))))"
  (is "(?A \<longrightarrow> ?B) \<and> (?early \<longrightarrow> ?reset) \<and> (?R \<longrightarrow> ?enough) \<and> ?bound \<and> ?out
       \<and> (?late \<longrightarrow> ?timeout) \<and> ?exists \<and> ?gone \<and> (?H \<longrightarrow> ?I) \<and> (?D \<longrightarrow> ?E)")
proof -
  let ?conf = "dedicatedHostDeleteStateConf t"
  have C: "ContinuousTargetOccurence (dedicatedHostDeleteStateConf u) = 20"
    and T: "Target (dedicatedHostDeleteStateConf u) = [''NotFound'']"
    and P: "Pending (dedicatedHostDeleteStateConf u) = [''Exists'']"
    and D: "Timeout (dedicatedHostDeleteStateConf u) = u" for u
    by (simp_all add: dedicatedHostDeleteStateConf_def)
  have 1: ?B if ?A
    using wait_done_run [OF that] by (auto simp add: C T D)
  have 2: ?reset if ?early using that by (simp add: C T P D)
  have 3: ?enough if ?R
    using wait_targets [where conf = ?conf and k = 0 and run = run and later = later] that
    by (simp add: C T D)
  have 4: ?bound by (rule wait_count_le)
  have 5: ?out by simp
  have 6: ?timeout if ?late using that by (cases ob) (simp add: D)
  have 7: ?exists by (simp add: dedicatedHostDeletedRefreshFunc_def)
  have 8: ?gone by (simp add: dedicatedHostDeletedRefreshFunc_def)
  have 9: ?I if ?H
    using that host_delete_result [of env w hid ra resp werr rb polls perr m] by blast
  have 10: ?E if ?D
  proof -
    from that obtain gone where parsed: "DedicatedHostID env (d_Id (rd w)) = Inr gone"
      by (cases "DedicatedHostID env (d_Id (rd w))")
         (auto simp add: resourceDedicatedHostDelete_def)
    let ?rg = "host_ResourceGroup gone" and ?g = "HostGroupName gone" and ?h = "HostName gone"
    obtain derr dr where del: "hosts_Delete env ?rg ?g ?h (remote w) = (derr, dr)"
      by (cases "hosts_Delete env ?rg ?g ?h (remote w)") auto
    with that parsed have derr: "derr = None"
      by (cases derr) (auto simp add: resourceDedicatedHostDelete_def call_def)
    obtain resp werr wr where wait: "hosts_WaitForCompletionRef env dr = ((resp, werr), wr)"
      by (cases "hosts_WaitForCompletionRef env dr") auto
    with that parsed del derr have ok: "werr = None \<or> WasNotFound resp"
      by (cases werr)
         (auto simp add: resourceDedicatedHostDelete_def call_def emit_def split: if_splits)
    let ?polls = "hosts_GetPolls env ?rg ?g ?h wr"
    let ?c = "dedicatedHostDeleteStateConf (timeoutDelete env)"
    let ?obs = "map (\<lambda>(elapsed, got). (elapsed, dedicatedHostDeletedRefreshFunc got)) ?polls"
    obtain perr fetched where run: "WaitForStateContext ?c 0 ?obs = (perr, fetched)"
      by (cases "WaitForStateContext ?c 0 ?obs") auto
    from host_delete_result [OF parsed del [unfolded derr] wait ok refl run] that
    have perr: "perr = None"
      and w': "w' = w\<lparr>remote := wr,
                    trace := trace w @
                      [Remote (HostsDelete ?rg ?g ?h), Remote HostsWaitForCompletionRef]
                      @ replicate fetched (Remote (HostsGet ?rg ?g ?h))\<rparr>"
      by (auto split: option.splits)
    from wait_done_run [OF run [unfolded perr]]
    have m: "20 \<le> fetched" and len: "fetched \<le> length ?polls"
      and early: "list_all (\<lambda>timed. fst timed < timeoutDelete env) (take fetched ?obs)"
      and all: "list_all (\<lambda>(elapsed, res, st, err). st \<in> set (Target ?c) \<and> err = None)
                  (drop (fetched - 20) (take fetched ?obs))"
      by (auto simp add: C D)
    from early have early': "list_all (\<lambda>timed. fst timed < timeoutDelete env)
                               (take fetched ?polls)"
      by (simp add: take_map list.pred_map comp_def split_beta)
    from all have "list_all (\<lambda>(elapsed, h, e). e \<noteq> None \<and> ResponseWasNotFound (host_Response h))
                     (drop (fetched - 20) (take fetched ?polls))"
      by (simp add: take_map drop_map list.pred_map comp_def
            refresh_is_target [where t = "timeoutDelete env"])
    with parsed del derr wait m len w' early' show ?thesis by auto
  qed
  show ?thesis using 1 2 3 4 5 6 7 8 9 10 by blast
qed

text \<open>
  The scenario of the spec, with a delete timeout of 30 minutes: after five 404s a 200
  restarts the count, so 19 further 404s are not enough (the wait times out) and the
  20th ends the wait, 28 fetches in all. With a delete timeout of 280 seconds the 28th
  answer comes too late, and with a timeout of zero no answer is read at all.
\<close>

theorem delete_poller_consecutive_not_found_witness:
  "resourceDedicatedHostDelete (exampleHostEnv 20 1800) exampleHostWorld
     = (None, exampleHostWorld\<lparr>remote := (), trace := exampleHostTrace 28\<rparr>)
   \<and> resourceDedicatedHostDelete (exampleHostEnv 19 1800) exampleHostWorld
     = (Some exampleHostTimeout, exampleHostWorld\<lparr>remote := (), trace := exampleHostTrace 27\<rparr>)
   \<and> resourceDedicatedHostDelete (exampleHostEnv 20 280) exampleHostWorld
     = (Some exampleHostTimeout, exampleHostWorld\<lparr>remote := (), trace := exampleHostTrace 27\<rparr>)
   \<and> resourceDedicatedHostDelete (exampleHostEnv 20 0) exampleHostWorld
     = (Some exampleHostTimeout, exampleHostWorld\<lparr>remote := (), trace := exampleHostTrace 0\<rparr>)
   \<and> list_all (\<lambda>(elapsed, res, st, err). st = ''NotFound'' \<and> err = None)
       (drop 8 (take 28 (map (\<lambda>(elapsed, got). (elapsed, dedicatedHostDeletedRefreshFunc got))
                           (exampleHostPolls 20))))"
  (is "?P1 \<and> ?P2 \<and> ?P3 \<and> ?P4 \<and> ?P5")
proof -
  let ?obs = "\<lambda>m. map (\<lambda>(elapsed, got). (elapsed, dedicatedHostDeletedRefreshFunc got))
                     (exampleHostPolls m)"
  have finished: "WaitForStateContext (dedicatedHostDeleteStateConf 1800) 0 (?obs 20) = (None, 28)"
    by code_simp
  have short: "WaitForStateContext (dedicatedHostDeleteStateConf 1800) 0 (?obs 19)
                 = (Some OperationTimeout, 27)"
    by code_simp
  have late: "WaitForStateContext (dedicatedHostDeleteStateConf 280) 0 (?obs 20)
                = (Some OperationTimeout, 27)"
    by code_simp
  have never: "WaitForStateContext (dedicatedHostDeleteStateConf 0) 0 (?obs 20)
                 = (Some OperationTimeout, 0)"
    by code_simp
  have 1: ?P1
    using delete_poller_consecutive_not_found
        [where w = exampleHostWorld and hid = exampleHostId and ra = "()" and rb = "()"
           and resp = "Some 200" and werr = None
           and env = "exampleHostEnv 20 1800" and polls = "exampleHostPolls 20" and perr = None and m = 28,
         THEN conjunct2, THEN conjunct2, THEN conjunct2, THEN conjunct2, THEN conjunct2,
         THEN conjunct2, THEN conjunct2, THEN conjunct2, THEN conjunct1] finished
    by (simp add: exampleHostEnv_def exampleHostWorld_def exampleHostId_def exampleHostTrace_def)
  have 2: ?P2
    using delete_poller_consecutive_not_found
        [where w = exampleHostWorld and hid = exampleHostId and ra = "()" and rb = "()"
           and resp = "Some 200" and werr = None
           and env = "exampleHostEnv 19 1800" and polls = "exampleHostPolls 19" and perr = "Some OperationTimeout" and m = 27,
         THEN conjunct2, THEN conjunct2, THEN conjunct2, THEN conjunct2, THEN conjunct2,
         THEN conjunct2, THEN conjunct2, THEN conjunct2, THEN conjunct1] short
    by (simp add: exampleHostEnv_def exampleHostWorld_def exampleHostId_def exampleHostTrace_def
          exampleHostTimeout_def)
  have 3: ?P3
    using delete_poller_consecutive_not_found
        [where w = exampleHostWorld and hid = exampleHostId and ra = "()" and rb = "()"
           and resp = "Some 200" and werr = None
           and env = "exampleHostEnv 20 280" and polls = "exampleHostPolls 20" and perr = "Some OperationTimeout" and m = 27,
         THEN conjunct2, THEN conjunct2, THEN conjunct2, THEN conjunct2, THEN conjunct2,
         THEN conjunct2, THEN conjunct2, THEN conjunct2, THEN conjunct1] late
    by (simp add: exampleHostEnv_def exampleHostWorld_def exampleHostId_def exampleHostTrace_def
          exampleHostTimeout_def)
  have 4: ?P4
    using delete_poller_consecutive_not_found
        [where w = exampleHostWorld and hid = exampleHostId and ra = "()" and rb = "()"
           and resp = "Some 200" and werr = None
           and env = "exampleHostEnv 20 0" and polls = "exampleHostPolls 20" and perr = "Some OperationTimeout" and m = 0,
         THEN conjunct2, THEN conjunct2, THEN conjunct2, THEN conjunct2, THEN conjunct2,
         THEN conjunct2, THEN conjunct2, THEN conjunct2, THEN conjunct1] never
    by (simp add: exampleHostEnv_def exampleHostWorld_def exampleHostId_def exampleHostTrace_def
          exampleHostTimeout_def)
  from delete_poller_consecutive_not_found
         [where t = 1800 and obs = "?obs 20" and n = 28, THEN conjunct1, THEN mp, OF finished]
  have 5: ?P5 by simp
  show ?thesis using 1 2 3 4 5 by blast
qed

section \<open>Properties of Create for automation job schedules\<close>

lemma deleteListed_skip:
  "\<not> jobScheduleMatches scheduleName runbookName v \<Longrightarrow>
   deleteListedJobSchedules env resourceGroup accountName scheduleName runbookName
     ((None, v) # later) w = (None, w') \<Longrightarrow>
   deleteListedJobSchedules env resourceGroup accountName scheduleName runbookName later w
     = (None, w')"
  by (simp add: jobScheduleMatches_def split: option.splits if_splits)

lemma deleteListed_match:
  assumes "jobScheduleMatches scheduleName runbookName v"
  shows "deleteListedJobSchedules env resourceGroup accountName scheduleName runbookName
           ((None, v) # later) w =
         (if listedJobScheduleID v = [] then
            (Some (Errorf ''job schedule Id is nil or empty listed by Automation Account %q Job Schedule List: %+v''
                     [accountName, ''<nil>'']), w)
          else
            (case uuid_FromString env (listedJobScheduleID v) of
               Inl perr \<Rightarrow>
                 (Some (Errorf ''parsing job schedule Id listed by Automation Account %q Job Schedule List:%v''
                          [accountName, perr]), w)
             | Inr jsId \<Rightarrow>
                (case call (JobScheduleDelete resourceGroup accountName jsId)
                        (jobs_Delete env resourceGroup accountName jsId) w of
                   ((resp, Some derr), w1) \<Rightarrow>
                     (Some (Errorf ''deleting job schedule Id listed by Automation Account %q Job Schedule List:%v''
                              [accountName, derr]), w1)
                 | ((resp, None), w1) \<Rightarrow>
                     deleteListedJobSchedules env resourceGroup accountName scheduleName
                       runbookName later w1)))"
proof -
  from assms obtain props schedule runbook
    where "js_JobScheduleProperties v = Some props"
      and "Schedule props = Some schedule" and "schedule_Name schedule = Some scheduleName"
      and "Runbook props = Some runbook" and "runbook_Name runbook = Some runbookName"
    by (auto simp add: jobScheduleMatches_def split: option.splits)
  then show ?thesis
    by (simp add: listedJobScheduleID_def split: option.splits)
qed

lemma deleteListed_trace:
  "deleteListedJobSchedules env resourceGroup accountName scheduleName runbookName listing w
     = (None, w') \<Longrightarrow>
   trace w' = trace w @
     map (\<lambda>v. Remote (JobScheduleDelete resourceGroup accountName
                        (uuid_FromStringOrNil env (listedJobScheduleID v))))
       (filter (jobScheduleMatches scheduleName runbookName) (map snd listing))
   \<and> rd w' = rd w"
proof (induction listing arbitrary: w)
  case Nil
  then show ?case by simp
next
  case (Cons step later)
  obtain err v where step: "step = (err, v)" by (cases step) auto
  from Cons.prems step have err: "err = None"
    by (cases err) simp_all
  show ?case
  proof (cases "jobScheduleMatches scheduleName runbookName v")
    case False
    from deleteListed_skip [OF False Cons.prems [unfolded step err]]
    have "deleteListedJobSchedules env resourceGroup accountName scheduleName runbookName
            later w = (None, w')" .
    from Cons.IH [OF this] False step show ?thesis by simp
  next
    case True
    from Cons.prems [unfolded step err deleteListed_match [OF True]]
    obtain jsId resp ra
      where parsed: "uuid_FromString env (listedJobScheduleID v) = Inr jsId"
        and deleted: "jobs_Delete env resourceGroup accountName jsId (remote w) = ((resp, None), ra)"
        and rest: "deleteListedJobSchedules env resourceGroup accountName scheduleName
                     runbookName later
                     (emit (Remote (JobScheduleDelete resourceGroup accountName jsId))
                        (w\<lparr>remote := ra\<rparr>)) = (None, w')"
      by (auto simp add: call_def split: if_splits sum.splits prod.splits option.splits)
    from Cons.IH [OF rest] True step parsed show ?thesis
      by (simp add: emit_def uuid_FromStringOrNil_def)
  qed
qed

lemma deleteListed_fails:
  "(err, v) \<in> set listing \<Longrightarrow> jobScheduleMatches scheduleName runbookName v \<Longrightarrow>
   listedJobScheduleID v = [] \<Longrightarrow>
   fst (deleteListedJobSchedules env resourceGroup accountName scheduleName runbookName
          listing w) \<noteq> None"
proof (induction listing arbitrary: w)
  case Nil
  then show ?case by simp
next
  case (Cons step later)
  obtain e u where step: "step = (e, u)" by (cases step) auto
  let ?loop = "deleteListedJobSchedules env resourceGroup accountName scheduleName runbookName"
  show ?case
  proof (rule notI)
    assume "fst (?loop (step # later) w) = None"
    then obtain w' where run: "?loop ((e, u) # later) w = (None, w')"
      unfolding step by (cases "?loop ((e, u) # later) w") auto
    then have e: "e = None" by (cases e) simp_all
    show False
    proof (cases "(err, v) = (e, u)")
      case True
      with Cons.prems have m: "jobScheduleMatches scheduleName runbookName u"
        and empty: "listedJobScheduleID u = []" by simp_all
      from run [unfolded e deleteListed_match [OF m]] empty show False by simp
    next
      case False
      with Cons.prems step have mem: "(err, v) \<in> set later" by auto
      have "\<exists>w1. ?loop later w1 = (None, w')"
      proof (cases "jobScheduleMatches scheduleName runbookName u")
        case False
        from deleteListed_skip [OF False run [unfolded e]] show ?thesis by blast
      next
        case True
        from run [unfolded e deleteListed_match [OF True]] show ?thesis
          by (auto split: if_splits sum.splits prod.splits option.splits)
      qed
      then obtain w1 where "?loop later w1 = (None, w')" by blast
      with Cons.IH [OF mem Cons.prems(2) Cons.prems(3), of w1] show False by simp
    qed
  qed
qed

text \<open>
  Claim C10. Create of an automation job schedule runs, before its own create call, a
  loop over the job schedules listed for the automation account. When the loop ends
  without error, the remote calls it made are exactly one delete for each listed job
  schedule whose schedule name and runbook name both equal the requested pair, in the
  order listed, and the schema values are untouched. When a listed matching entry has a
  nil or empty job schedule id, the loop fails. Create, once the UUID is chosen and
  the check for an existing job schedule has passed, is this loop on the listing the
  remote API returns, followed only on its success by the create call; so Create fails
  whenever that listing holds a matching entry with a nil or empty id, and a
  successful Create has deleted the matching job schedules that were there.
\<close>

theorem create_deletes_listed_job_schedules:
  "(deleteListedJobSchedules env resourceGroup accountName scheduleName runbookName listing w
      = (None, w') \<longrightarrow>
      trace w' = trace w @
        map (\<lambda>v. Remote (JobScheduleDelete resourceGroup accountName
                           (uuid_FromStringOrNil env (listedJobScheduleID v))))
          (filter (jobScheduleMatches scheduleName runbookName) (map snd listing))
      \<and> rd w' = rd w)
   \<and> ((err, v) \<in> set listing \<and> jobScheduleMatches scheduleName runbookName v
        \<and> listedJobScheduleID v = [] \<longrightarrow>
      fst (deleteListedJobSchedules env resourceGroup accountName scheduleName runbookName
             listing w) \<noteq> None)
   \<and> (d_Get (rd w0) ''resource_group_name'' = resourceGroup
        \<and> d_Get (rd w0) ''automation_account_name'' = accountName
        \<and> d_Get (rd w0) ''runbook_name'' = runbookName
        \<and> d_Get (rd w0) ''schedule_name'' = scheduleName
        \<and> uuid_NewV4 env = Inr fresh
        \<and> jobScheduleUUID = (case d_GetOk (rd w0) ''job_schedule_id'' of
                               (jobScheduleID, True) \<Rightarrow> uuid_FromStringOrNil env jobScheduleID
                             | (jobScheduleID, False) \<Rightarrow> fresh)
        \<and> jobScheduleCheckExisting env resourceGroup accountName jobScheduleUUID w0 = (None, wa)
        \<and> jobs_ListByAutomationAccountComplete env resourceGroup accountName (remote wa)
            = (listing, rb)
        \<and> w = emit (Remote (JobScheduleListByAutomationAccountComplete resourceGroup accountName))
                 (wa\<lparr>remote := rb\<rparr>) \<longrightarrow>
      resourceAutomationJobScheduleCreate env w0 =
        (case deleteListedJobSchedules env resourceGroup accountName scheduleName runbookName
                listing w of
           (Some lerr, wc) \<Rightarrow> (Some lerr, wc)
         | (None, wc) \<Rightarrow>
             jobScheduleCreateAndRead env resourceGroup accountName jobScheduleUUID
               scheduleName runbookName wc)
      \<and> ((\<exists>lerr lv. (lerr, lv) \<in> set listing \<and> jobScheduleMatches scheduleName runbookName lv
                    \<and> listedJobScheduleID lv = []) \<longrightarrow>
          fst (resourceAutomationJobScheduleCreate env w0) \<noteq> None))"
  (is "(?A \<longrightarrow> ?B) \<and> (?C \<longrightarrow> ?D) \<and> (?E \<longrightarrow> ?F \<and> (?G \<longrightarrow> ?H))")
proof -
  have 1: ?B if ?A using deleteListed_trace [OF that] .
  have 2: ?D if ?C using that deleteListed_fails by blast
  have 3: ?F if ?E
    using that
    by (clarsimp simp add: resourceAutomationJobScheduleCreate_def Let_def call_def)
  have 4: ?H if ?E ?G
  proof -
    from \<open>?G\<close> obtain lerr lv where "(lerr, lv) \<in> set listing"
      and "jobScheduleMatches scheduleName runbookName lv" and "listedJobScheduleID lv = []"
      by blast
    from deleteListed_fails [OF this, of env resourceGroup accountName w]
    obtain e wc where "deleteListedJobSchedules env resourceGroup accountName scheduleName
                         runbookName listing w = (Some e, wc)"
      by (cases "deleteListedJobSchedules env resourceGroup accountName scheduleName
                   runbookName listing w") auto
    with 3 [OF \<open>?E\<close>] show ?thesis by simp
  qed
  show ?thesis using 1 2 3 4 by blast
qed

lemmas exampleJob_defs =
  exampleJobEnv_def exampleJobWorld_def exampleJobAttrs_def exampleData_def exampleJob_def
  d_Get_def d_GetOk_def d_GetOkMap_def d_Set_def d_SetId_def PathAt_def ResponseWasNotFound_def
  uuid_FromStringOrNil_def jobScheduleMatches_def listedJobScheduleID_def

lemma example_uuids: "exampleOldUuid \<noteq> exampleNewUuid"
  by (simp add: exampleOldUuid_def exampleNewUuid_def)

theorem create_deletes_listed_job_schedules_witness:
  "fst (resourceAutomationJobScheduleCreate exampleJobEnv (exampleJobWorld exampleOldUuid)) = None
   \<and> trace (snd (resourceAutomationJobScheduleCreate exampleJobEnv (exampleJobWorld exampleOldUuid)))
      = [Remote (JobScheduleGet ''rg1'' ''acct1'' exampleNewUuid),
         Remote (JobScheduleListByAutomationAccountComplete ''rg1'' ''acct1''),
         Remote (JobScheduleDelete ''rg1'' ''acct1'' exampleOldUuid),
         Remote (JobScheduleCreate ''rg1'' ''acct1'' exampleNewUuid
                   \<lparr>create_Schedule = Some \<lparr>schedule_Name = Some ''schedule1''\<rparr>,
                    create_Runbook = Some \<lparr>runbook_Name = Some ''runbook1''\<rparr>,
                    create_Parameters = None, create_RunOn = None\<rparr>),
         Remote (JobScheduleGet ''rg1'' ''acct1'' exampleNewUuid),
         Remote (JobScheduleGet ''rg1'' ''acct1'' exampleNewUuid)]
   \<and> remote (snd (resourceAutomationJobScheduleCreate exampleJobEnv (exampleJobWorld exampleOldUuid)))
        exampleOldUuid = None
   \<and> fst (resourceAutomationJobScheduleCreate exampleJobEnv (exampleJobWorld [])) \<noteq> None"
proof -
  let ?env = exampleJobEnv
  let ?start = "exampleJobWorld exampleOldUuid"
  let ?old = "exampleJob exampleOldUuid exampleOldUuid"
  let ?checked = "emit (Remote (JobScheduleGet ''rg1'' ''acct1'' exampleNewUuid)) ?start"
  let ?listed = "emit (Remote (JobScheduleListByAutomationAccountComplete ''rg1'' ''acct1'')) ?checked"
  note inst = create_deletes_listed_job_schedules
    [where env = ?env and resourceGroup = "''rg1''" and accountName = "''acct1''"
       and scheduleName = "''schedule1''" and runbookName = "''runbook1''"
       and fresh = exampleNewUuid and jobScheduleUUID = exampleNewUuid]
  have hyps: "d_Get (rd ?start) ''resource_group_name'' = ''rg1''
        \<and> d_Get (rd ?start) ''automation_account_name'' = ''acct1''
        \<and> d_Get (rd ?start) ''runbook_name'' = ''runbook1''
        \<and> d_Get (rd ?start) ''schedule_name'' = ''schedule1''
        \<and> uuid_NewV4 ?env = Inr exampleNewUuid
        \<and> exampleNewUuid = (case d_GetOk (rd ?start) ''job_schedule_id'' of
                               (jobScheduleID, True) \<Rightarrow> uuid_FromStringOrNil ?env jobScheduleID
                             | (jobScheduleID, False) \<Rightarrow> exampleNewUuid)
        \<and> jobScheduleCheckExisting ?env ''rg1'' ''acct1'' exampleNewUuid ?start = (None, ?checked)
        \<and> jobs_ListByAutomationAccountComplete ?env ''rg1'' ''acct1'' (remote ?checked)
            = ([(None, ?old)], remote ?checked)
        \<and> ?listed = emit (Remote (JobScheduleListByAutomationAccountComplete ''rg1'' ''acct1''))
                 (?checked\<lparr>remote := remote ?checked\<rparr>)"
    by (simp add: exampleJob_defs jobScheduleCheckExisting_def call_def emit_def
          exampleOldUuid_def exampleNewUuid_def)
  from inst [where ?w0.0 = ?start and wa = ?checked and listing = "[(None, ?old)]" and rb = "remote ?checked"
      and w = ?listed, THEN conjunct2, THEN conjunct2, THEN mp, OF hyps, THEN conjunct1]
  have create: "resourceAutomationJobScheduleCreate ?env ?start =
        (case deleteListedJobSchedules ?env ''rg1'' ''acct1'' ''schedule1'' ''runbook1''
                [(None, ?old)] ?listed of
           (Some lerr, wc) \<Rightarrow> (Some lerr, wc)
         | (None, wc) \<Rightarrow>
             jobScheduleCreateAndRead ?env ''rg1'' ''acct1'' exampleNewUuid
               ''schedule1'' ''runbook1'' wc)" .
  have good: "fst (resourceAutomationJobScheduleCreate ?env ?start) = None
      \<and> trace (snd (resourceAutomationJobScheduleCreate ?env ?start))
      = [Remote (JobScheduleGet ''rg1'' ''acct1'' exampleNewUuid),
         Remote (JobScheduleListByAutomationAccountComplete ''rg1'' ''acct1''),
         Remote (JobScheduleDelete ''rg1'' ''acct1'' exampleOldUuid),
         Remote (JobScheduleCreate ''rg1'' ''acct1'' exampleNewUuid
                   \<lparr>create_Schedule = Some \<lparr>schedule_Name = Some ''schedule1''\<rparr>,
                    create_Runbook = Some \<lparr>runbook_Name = Some ''runbook1''\<rparr>,
                    create_Parameters = None, create_RunOn = None\<rparr>),
         Remote (JobScheduleGet ''rg1'' ''acct1'' exampleNewUuid),
         Remote (JobScheduleGet ''rg1'' ''acct1'' exampleNewUuid)]
      \<and> remote (snd (resourceAutomationJobScheduleCreate ?env ?start)) exampleOldUuid = None"
    unfolding create
    by (simp add: exampleJob_defs jobScheduleCreateAndRead_def
          resourceAutomationJobScheduleRead_def call_def emit_def setId_def setAttr_def
          Let_def exampleOldUuid_def exampleNewUuid_def exampleJobId_def)
  let ?bad = "exampleJobWorld []"
  let ?badChecked = "emit (Remote (JobScheduleGet ''rg1'' ''acct1'' exampleNewUuid)) ?bad"
  let ?badListed = "emit (Remote (JobScheduleListByAutomationAccountComplete ''rg1'' ''acct1''))
                      ?badChecked"
  let ?nameless = "exampleJob exampleOldUuid []"
  have badHyps: "d_Get (rd ?bad) ''resource_group_name'' = ''rg1''
        \<and> d_Get (rd ?bad) ''automation_account_name'' = ''acct1''
        \<and> d_Get (rd ?bad) ''runbook_name'' = ''runbook1''
        \<and> d_Get (rd ?bad) ''schedule_name'' = ''schedule1''
        \<and> uuid_NewV4 ?env = Inr exampleNewUuid
        \<and> exampleNewUuid = (case d_GetOk (rd ?bad) ''job_schedule_id'' of
                               (jobScheduleID, True) \<Rightarrow> uuid_FromStringOrNil ?env jobScheduleID
                             | (jobScheduleID, False) \<Rightarrow> exampleNewUuid)
        \<and> jobScheduleCheckExisting ?env ''rg1'' ''acct1'' exampleNewUuid ?bad
            = (None, ?badChecked)
        \<and> jobs_ListByAutomationAccountComplete ?env ''rg1'' ''acct1'' (remote ?badChecked)
            = ([(None, ?nameless)], remote ?badChecked)
        \<and> ?badListed = emit (Remote (JobScheduleListByAutomationAccountComplete ''rg1'' ''acct1''))
                 (?badChecked\<lparr>remote := remote ?badChecked\<rparr>)"
    by (simp add: exampleJob_defs jobScheduleCheckExisting_def call_def emit_def
          exampleOldUuid_def exampleNewUuid_def)
  have entry: "\<exists>lerr lv. (lerr, lv) \<in> set [(None, ?nameless)]
                 \<and> jobScheduleMatches ''schedule1'' ''runbook1'' lv
                 \<and> listedJobScheduleID lv = []"
    by (simp add: exampleJob_def jobScheduleMatches_def listedJobScheduleID_def)
  from inst [where ?w0.0 = ?bad and wa = ?badChecked and listing = "[(None, ?nameless)]"
      and rb = "remote ?badChecked" and w = ?badListed,
      THEN conjunct2, THEN conjunct2, THEN mp, OF badHyps, THEN conjunct2, THEN mp, OF entry]
  have bad: "fst (resourceAutomationJobScheduleCreate ?env ?bad) \<noteq> None" .
  from good bad show ?thesis by blast
qed

end
